theory Spec2Isabelle
  imports Main "HOL-Library.AList"
begin

section \<open>Content-directory mappings of the query node\<close>

text \<open>
  A shallow embedding of \<^verbatim>\<open>query-node/mappings/content-directory/entity/ignoreOperation.ts\<close>
  (the reference integrity validator) and of
  \<^verbatim>\<open>query-node/mappings/content-directory/entity/index.ts\<close> (the event dispatcher).

  JavaScript numbers that hold entity ids, indices and block heights are natural numbers
  here; the embedding is exact for values in the safe integer range.
  \<^verbatim>\<open>undefined\<close> is \<open>None\<close>. An \<^verbatim>\<open>async\<close> function that is awaited is its result; one
  that is called without \<^verbatim>\<open>await\<close> is a \<open>promise\<close> value.
\<close>

subsection \<open>Values shared by both files\<close>

text \<open>\<^verbatim>\<open>Number.prototype.toString()\<close> in radix ten.\<close>

definition digit :: "nat \<Rightarrow> char" where
  "digit d = ''0123456789'' ! d"

function toString :: "nat \<Rightarrow> string" where
  "toString n = (if n < 10 then [digit n] else toString (n div 10) @ [digit (n mod 10)])"
  by pat_completeness auto
termination
  by (relation "measure id") auto

declare toString.simps [simp del]

text \<open>
  A decoded relation-typed property, \<^verbatim>\<open>IReference\<close> of the mappings' types:
  \<^verbatim>\<open>{ entityId: number; existing: boolean }\<close>.
\<close>

record IReference =
  entityId :: nat
  existing :: bool

text \<open>
  A decoded property bag. Only its reference-valued fields are read by the code embedded
  here, so the bag maps a property name to the reference stored under it; a field that is
  missing is \<open>None\<close> and fails the \<^verbatim>\<open>if (language)\<close> guards.
\<close>

type_synonym bag = "string \<Rightarrow> IReference option"

text \<open>
  The per-class property layouts that both files import from
  \<^verbatim>\<open>content-dir-consts\<close>. Their contents are not among the sources; the decoders, which
  are not among the sources either, receive the layout as an argument. The two names spelt
  \<^verbatim>\<open>WIthId\<close> are spelt so in the source.
\<close>

datatype layout =
    channelPropertyNamesWithId
  | categoryPropertyNamesWithId
  | knownLicensePropertyNamesWIthId
  | userDefinedLicensePropertyNamesWithId
  | joystreamMediaLocationPropertyNamesWithId
  | httpMediaLocationPropertyNamesWithId
  | videoMediaPropertyNamesWithId
  | videoPropertyNamesWithId
  | languagePropertyNamesWIthId
  | videoMediaEncodingPropertyNamesWithId
  | featuredVideoPropertyNamesWithId
  | mediaLocationPropertyNamesWithId
  | licensePropertyNamesWithId

text \<open>The members of the enumeration \<^verbatim>\<open>ContentDirectoryKnownClasses\<close>.\<close>

datatype ContentDirectoryKnownClasses =
    CHANNEL
  | CATEGORY
  | KNOWNLICENSE
  | USERDEFINEDLICENSE
  | JOYSTREAMMEDIALOCATION
  | HTTPMEDIALOCATION
  | VIDEOMEDIA
  | VIDEO
  | LANGUAGE
  | VIDEOMEDIAENCODING
  | FEATUREDVIDEOS
  | MEDIALOCATION
  | LICENSE

text \<open>
  Modelled from the spec: the string values of the enumeration, declared in
  \<^verbatim>\<open>content-dir-consts\<close>, which is not among the sources. Each member's value is the class
  name as the spec's data model lists the known classes (Channel, Category, Video,
  VideoMedia, License, MediaLocation, Language, FeaturedVideo) and as the validator's own
  literals spell the remaining ones.
\<close>

fun className :: "ContentDirectoryKnownClasses \<Rightarrow> string" where
  "className CHANNEL = ''Channel''"
| "className CATEGORY = ''Category''"
| "className KNOWNLICENSE = ''KnownLicense''"
| "className USERDEFINEDLICENSE = ''UserDefinedLicense''"
| "className JOYSTREAMMEDIALOCATION = ''JoystreamMediaLocation''"
| "className HTTPMEDIALOCATION = ''HttpMediaLocation''"
| "className VIDEOMEDIA = ''VideoMedia''"
| "className VIDEO = ''Video''"
| "className LANGUAGE = ''Language''"
| "className VIDEOMEDIAENCODING = ''VideoMediaEncoding''"
| "className FEATUREDVIDEOS = ''FeaturedVideo''"
| "className MEDIALOCATION = ''MediaLocation''"
| "className LICENSE = ''License''"

definition allKnownClasses :: "ContentDirectoryKnownClasses list" where
  "allKnownClasses =
     [CHANNEL, CATEGORY, KNOWNLICENSE, USERDEFINEDLICENSE, JOYSTREAMMEDIALOCATION,
      HTTPMEDIALOCATION, VIDEOMEDIA, VIDEO, LANGUAGE, VIDEOMEDIAENCODING, FEATUREDVIDEOS,
      MEDIALOCATION, LICENSE]"

text \<open>
  A \<^verbatim>\<open>switch\<close> over a class name compares the name with the members' values and takes the
  \<^verbatim>\<open>default\<close> branch when none is equal: \<open>matchClass\<close> is the member whose \<^verbatim>\<open>case\<close> label
  matches, \<open>None\<close> for the default branch.
\<close>

definition matchClass :: "string \<Rightarrow> ContentDirectoryKnownClasses option" where
  "matchClass n = find (\<lambda>k. className k = n) allKnownClasses"

text \<open>
  The entity models that \<^verbatim>\<open>ignoreOperation.ts\<close> imports from the generated GraphQL server
  and passes to \<^verbatim>\<open>db.get\<close>, and \<open>FeaturedVideo\<close>, the model of the one class with a typed
  row that the file never queries.
\<close>

datatype model =
    Language
  | VideoMediaEncoding
  | MediaLocationEntity
  | Category
  | Channel
  | LicenseEntity
  | VideoMedia
  | UserDefinedLicenseEntity
  | KnownLicenseEntity
  | JoystreamMediaLocationEntity
  | HttpMediaLocationEntity
  | Video
  | FeaturedVideo

text \<open>
  The value under \<^verbatim>\<open>where: { id: ... }\<close> of a query. Every query but one passes the string
  \<^verbatim>\<open>entityId.toString()\<close>; line 178 of \<^verbatim>\<open>ignoreOperation.ts\<close> passes
  \<^verbatim>\<open>video.entityId.toString\<close>, the method itself.
\<close>

datatype where_id = IdString string | NumberToStringMethod

type_synonym query = "model \<times> where_id"

subsection \<open>The reference integrity validator\<close>

text \<open>
  \<^verbatim>\<open>IEntity\<close> of the mappings' types, with the fields the validator reads: the position of
  the creating operation in the batch (\<^verbatim>\<open>indexOf\<close>, optional) and the raw properties, which
  only the decoder inspects.
\<close>

record 'p IEntity =
  indexOf :: "nat option"
  properties :: 'p

text \<open>
  \<^verbatim>\<open>ClassEntityMap = Map<string, IEntity[]>\<close>. A JavaScript \<^verbatim>\<open>Map\<close> iterates in the order in
  which its keys were first set, and setting an existing key keeps its place: an association
  list with \<open>AList.update\<close>.
\<close>

type_synonym 'p ClassEntityMap = "(string \<times> 'p IEntity list) list"

text \<open>
  Lines 37 to 41. An array and an entity are objects, hence truthy: the first test fails
  only for a missing key, and \<^verbatim>\<open>!find(...)\<close> holds only when no element matches.
  \<^verbatim>\<open>e.indexOf === entityId\<close> is false for an entity without \<^verbatim>\<open>indexOf\<close>.
\<close>

definition getEntity :: "'p ClassEntityMap \<Rightarrow> string \<Rightarrow> nat \<Rightarrow> bool" where
  "getEntity classEntityMap cn eid =
     (case map_of classEntityMap cn of
        None \<Rightarrow> True
      | Some newlyCreatedEntities \<Rightarrow>
          (case find (\<lambda>e. indexOf e = Some eid) newlyCreatedEntities of
             None \<Rightarrow> True
           | Some e \<Rightarrow> False))"

text \<open>
  Lines 48 to 56, the first loop of \<^verbatim>\<open>transaction\<close>. \<^verbatim>\<open>getClassName\<close> (of
  \<^verbatim>\<open>./create\<close>, not among the sources) is a parameter: \<open>g entity\<close> is the class name it
  returns for the entity, \<open>None\<close> for \<^verbatim>\<open>undefined\<close>.
\<close>

fun buildClassEntityMap ::
  "('p IEntity \<Rightarrow> string option) \<Rightarrow> 'p IEntity list \<Rightarrow> 'p ClassEntityMap \<Rightarrow> 'p ClassEntityMap"
where
  "buildClassEntityMap g [] classEntityMap = classEntityMap"
| "buildClassEntityMap g (entity # rest) classEntityMap =
     (case g entity of
        None \<Rightarrow> buildClassEntityMap g rest classEntityMap
      | Some cn \<Rightarrow>
          buildClassEntityMap g rest
            (AList.update cn
               (case map_of classEntityMap cn of
                  Some es \<Rightarrow> es @ [entity]
                | None \<Rightarrow> [entity])
               classEntityMap))"

text \<open>
  Control flow of the scanning loops: a loop body either executes \<^verbatim>\<open>return\<close> or falls
  through to the next iteration. The state is the variable \<^verbatim>\<open>ignoreOperations\<close> together with
  the queries sent to the store so far.
\<close>

datatype 's flow = Return 's | Next 's

type_synonym scan_state = "bool \<times> query list"

fun run :: "('s \<Rightarrow> 's flow) list \<Rightarrow> 's \<Rightarrow> 's flow" where
  "run [] s = Next s"
| "run (f # fs) s = (case f s of Return r \<Rightarrow> Return r | Next s' \<Rightarrow> run fs s')"

text \<open>
  Every \<^verbatim>\<open>case\<close> of the validator's \<^verbatim>\<open>switch\<close> is a sequence of blocks of one shape,
  \<^verbatim>\<open>if (r) { ignoreOperations = r.existing ? !(await db.get(M, { where: { id: K } }))
                                             : getEntity(classEntityMap, C, r.entityId)
            if (ignoreOperations) return ignoreOperations }\<close>
  A \<open>slot\<close> holds what varies between the blocks: the reference \<open>r\<close> (present, since the
  guard passed), the model \<open>M\<close>, the value \<open>K\<close> passed as id and the class-name literal \<open>C\<close>.
\<close>

record slot =
  reference :: IReference
  target_model :: model
  where_key :: where_id
  target_class :: string

text \<open>The store's read primitive, \<open>db M K\<close>: whether \<^verbatim>\<open>db.get(M, { where: { id: K } })\<close> finds a row.\<close>

type_synonym db_get = "model \<Rightarrow> where_id \<Rightarrow> bool"

definition step :: "db_get \<Rightarrow> 'p ClassEntityMap \<Rightarrow> slot \<Rightarrow> scan_state \<Rightarrow> scan_state flow" where
  "step db classEntityMap s st =
     (let r = reference s;
          st' = (if existing r
                 then (\<not> db (target_model s) (where_key s), snd st @ [(target_model s, where_key s)])
                 else (getEntity classEntityMap (target_class s) (entityId r), snd st))
      in if fst st' then Return st' else Next st')"

definition byId :: "IReference \<Rightarrow> where_id" where
  "byId r = IdString (toString (entityId r))"

definition byMethod :: "IReference \<Rightarrow> where_id" where
  "byMethod r = NumberToStringMethod"

fun guarded :: "IReference option \<Rightarrow> model \<Rightarrow> (IReference \<Rightarrow> where_id) \<Rightarrow> string \<Rightarrow> slot list" where
  "guarded None M K C = []"
| "guarded (Some r) M K C =
     [\<lparr>reference = r, target_model = M, where_key = K r, target_class = C\<rparr>]"

text \<open>
  Lines 64 to 187, the \<^verbatim>\<open>switch (className)\<close>: the blocks each case executes, in order.
  \<^verbatim>\<open>decode.setEntityPropertyValues\<close> (not among the sources) is the parameter \<open>dec\<close>. The
  last case passes \<^verbatim>\<open>video.entityId.toString\<close> where the others call the method.
\<close>

definition entityReferences :: "('p \<Rightarrow> layout \<Rightarrow> bag) \<Rightarrow> string \<Rightarrow> 'p IEntity \<Rightarrow> slot list" where
  "entityReferences dec cn entity =
     (case matchClass cn of
        Some CHANNEL \<Rightarrow>
          (let props = dec (properties entity) channelPropertyNamesWithId in
             guarded (props ''language'') Language byId ''Language'')
      | Some VIDEOMEDIA \<Rightarrow>
          (let props = dec (properties entity) videoMediaPropertyNamesWithId in
             guarded (props ''encoding'') VideoMediaEncoding byId ''VideoMediaEncoding''
             @ guarded (props ''location'') MediaLocationEntity byId ''MediaLocation'')
      | Some VIDEO \<Rightarrow>
          (let props = dec (properties entity) videoPropertyNamesWithId in
             guarded (props ''category'') Category byId ''Category''
             @ guarded (props ''channel'') Channel byId ''Channel''
             @ guarded (props ''language'') Language byId ''Language''
             @ guarded (props ''license'') LicenseEntity byId ''License''
             @ guarded (props ''media'') VideoMedia byId ''VideoMedia'')
      | Some LICENSE \<Rightarrow>
          (let props = dec (properties entity) licensePropertyNamesWithId in
             guarded (props ''knownLicense'') KnownLicenseEntity byId ''KnownLicense''
             @ guarded (props ''userDefinedLicense'') UserDefinedLicenseEntity byId
                 ''UserDefinedLicense'')
      | Some MEDIALOCATION \<Rightarrow>
          (let props = dec (properties entity) mediaLocationPropertyNamesWithId in
             guarded (props ''joystreamMediaLocation'') JoystreamMediaLocationEntity byId
               ''JoystreamMediaLocation''
             @ guarded (props ''httpMediaLocation'') HttpMediaLocationEntity byId
                 ''HttpMediaLocation'')
      | Some FEATUREDVIDEOS \<Rightarrow>
          (let props = dec (properties entity) featuredVideoPropertyNamesWithId in
             guarded (props ''video'') Video byMethod ''Video'')
      | _ \<Rightarrow> [])"

text \<open>
  Lines 43 to 191. The result is the returned \<^verbatim>\<open>ignoreOperations\<close> and the queries the call
  sent to the store, in order.
\<close>

definition transaction ::
  "db_get \<Rightarrow> ('p IEntity \<Rightarrow> 'o list \<Rightarrow> string option) \<Rightarrow> ('p \<Rightarrow> layout \<Rightarrow> bag) \<Rightarrow>
     'o list \<Rightarrow> 'p IEntity list \<Rightarrow> bool \<times> query list"
where
  "transaction db getClassName dec createEntityOperations entities =
     (let classEntityMap =
            buildClassEntityMap (\<lambda>entity. getClassName entity createEntityOperations) entities []
      in case run
                (map (\<lambda>(cn, es).
                        run (map (\<lambda>entity.
                                    run (map (step db classEntityMap)
                                           (entityReferences dec cn entity)))
                               es))
                   classEntityMap)
                (False, [])
         of Return st \<Rightarrow> st
          | Next st \<Rightarrow> st)"

text \<open>
  Notions used to state what the validator computes: the references of a batch in the
  order in which the loops reach them, the outcome of resolving one of them, and the part
  of a list of references that is scanned before the first \<^verbatim>\<open>return\<close>.
\<close>

definition batchReferences :: "('p \<Rightarrow> layout \<Rightarrow> bag) \<Rightarrow> 'p ClassEntityMap \<Rightarrow> slot list" where
  "batchReferences dec classEntityMap =
     concat (map (\<lambda>(cn, es). concat (map (entityReferences dec cn) es)) classEntityMap)"

definition unresolved :: "db_get \<Rightarrow> 'p ClassEntityMap \<Rightarrow> slot \<Rightarrow> bool" where
  "unresolved db classEntityMap s =
     (if existing (reference s)
      then \<not> db (target_model s) (where_key s)
      else getEntity classEntityMap (target_class s) (entityId (reference s)))"

fun scanned :: "('a \<Rightarrow> bool) \<Rightarrow> 'a list \<Rightarrow> 'a list" where
  "scanned P [] = []"
| "scanned P (x # xs) = (if P x then [x] else x # scanned P xs)"

definition queriesOf :: "slot list \<Rightarrow> query list" where
  "queriesOf ss =
     map (\<lambda>s. (target_model s, where_key s)) (filter (\<lambda>s. existing (reference s)) ss)"

text \<open>
  The resolution of a reference as the specification words it: a reference to an existing
  entity is looked up in the store under the referenced id, a reference to an entity of the
  batch among the batch's entities of the target class. It differs from \<open>unresolved\<close> only
  in the id it sends to the store.
\<close>

definition claimedUnresolved :: "db_get \<Rightarrow> 'p ClassEntityMap \<Rightarrow> slot \<Rightarrow> bool" where
  "claimedUnresolved db classEntityMap s =
     (if existing (reference s)
      then \<not> db (target_model s) (IdString (toString (entityId (reference s))))
      else getEntity classEntityMap (target_class s) (entityId (reference s)))"

text \<open>
  The same resolution stated on the batch itself, without the validator's lookup: a
  reference to an entity of the batch is unresolved when no entity of the batch has the
  target class and the referenced id as its index.
\<close>

definition specUnresolved ::
  "db_get \<Rightarrow> ('p IEntity \<Rightarrow> string option) \<Rightarrow> 'p IEntity list \<Rightarrow> slot \<Rightarrow> bool"
where
  "specUnresolved db g entities s =
     (if existing (reference s)
      then \<not> db (target_model s) (IdString (toString (entityId (reference s))))
      else \<not> list_ex (\<lambda>e. g e = Some (target_class s) \<and> indexOf e = Some (entityId (reference s)))
               entities)"


subsection \<open>The store\<close>

text \<open>
  A row of the generic index, \<^verbatim>\<open>ClassEntity\<close> of the generated GraphQL server, with the
  fields lines 269 to 272 assign; \<^verbatim>\<open>happenedIn\<close> is the block, an opaque reference that is the
  block height here.
\<close>

record ClassEntity =
  id' :: string
  classId :: nat
  version :: nat
  happenedIn :: nat

text \<open>
  Modelled from the spec: the persisted store \<^verbatim>\<open>DB\<close> of the generated indexer, which is not
  among the sources. It holds the ClassEntity rows by id, the ids of the typed rows of every
  model, the global next-entity-id counter and the blocks seen.
\<close>

record store =
  classEntities :: "string \<Rightarrow> ClassEntity option"
  typed :: "(model \<times> string) set"
  nextEntityId :: "nat option"
  blocks :: "nat set"

text \<open>
  Modelled from the spec: \<^verbatim>\<open>db.get\<close> on a typed model, not among the sources (section 6:
  \<^verbatim>\<open>get(type, predicate) -> row | absent\<close>). A row is found when the store holds a typed
  row of the model under the id string; an id that is not a string matches no row.
\<close>

definition db_get :: "store \<Rightarrow> db_get" where
  "db_get db M k =
     (case k of IdString i \<Rightarrow> (M, i) \<in> typed db | NumberToStringMethod \<Rightarrow> False)"

text \<open>
  Modelled from the spec: \<^verbatim>\<open>db.save\<close> and \<^verbatim>\<open>db.remove\<close> on a ClassEntity row, not among the
  sources (section 6: \<^verbatim>\<open>save(row)\<close>, \<^verbatim>\<open>remove(row)\<close>). Saving stores the row under its id,
  removing deletes the row of that id. Writes do not fail.
\<close>

definition db_save :: "ClassEntity \<Rightarrow> store \<Rightarrow> store" where
  "db_save row db = db\<lparr>classEntities := (classEntities db)(id' row \<mapsto> row)\<rparr>"

definition db_remove :: "ClassEntity \<Rightarrow> store \<Rightarrow> store" where
  "db_remove row db = db\<lparr>classEntities := (classEntities db)(id' row := None)\<rparr>"

text \<open>
  Modelled from the spec: \<^verbatim>\<open>createBlockOrGetFromDatabase\<close> of \<^verbatim>\<open>./create\<close>, not among the
  sources. It returns the block of the given height, recording it when it is new.
\<close>

definition createBlockOrGetFromDatabase :: "store \<Rightarrow> nat \<Rightarrow> nat \<times> store" where
  "createBlockOrGetFromDatabase db n = (n, db\<lparr>blocks := insert n (blocks db)\<rparr>)"

text \<open>
  Modelled from the spec: \<^verbatim>\<open>getOrCreate.nextEntityId\<close> of \<^verbatim>\<open>../get-or-create\<close>, not among
  the sources. It sets the global next-entity-id counter to the value it is given
  (section 4.1).
\<close>

definition getOrCreate_nextEntityId :: "store \<Rightarrow> nat \<Rightarrow> store" where
  "getOrCreate_nextEntityId db n = db\<lparr>nextEntityId := Some n\<rparr>"

subsection \<open>The single-entity checks\<close>

text \<open>
  The value of a call of an \<^verbatim>\<open>async\<close> function that is not awaited: a promise, here with the
  value it settles to. A promise is an object, and every object is truthy.
\<close>

datatype 'a promise = Promise 'a

fun ToBoolean :: "'a promise \<Rightarrow> bool" where
  "ToBoolean (Promise v) = True"

fun settled :: "'a promise \<Rightarrow> 'a" where
  "settled (Promise v) = v"

text \<open>
  \<^verbatim>\<open>r && !(await db.get(M, { where: { id: r.entityId.toString() } }))\<close>, the test of every
  branch of lines 193 to 274.
\<close>

definition missing :: "store \<Rightarrow> IReference option \<Rightarrow> model \<Rightarrow> bool" where
  "missing db ro M =
     (case ro of
        None \<Rightarrow> False
      | Some r \<Rightarrow> \<not> db_get db M (IdString (toString (entityId r))))"

text \<open>Lines 193 to 274: the six single-entity checks exported as \<^verbatim>\<open>shouldIgnore\<close>.\<close>

definition channel :: "bag \<Rightarrow> store \<Rightarrow> bool promise" where
  "channel props db =
     Promise (case props ''language'' of
                Some language \<Rightarrow>
                  \<not> db_get db Language (IdString (toString (entityId language)))
              | None \<Rightarrow> False)"

definition videoMedia :: "bag \<Rightarrow> store \<Rightarrow> bool promise" where
  "videoMedia props db =
     Promise (if missing db (props ''encoding'') VideoMediaEncoding then True
              else if missing db (props ''location'') MediaLocationEntity then True
              else False)"

definition video :: "bag \<Rightarrow> store \<Rightarrow> bool promise" where
  "video props db =
     Promise (if missing db (props ''category'') Category then True
              else if missing db (props ''channel'') Channel then True
              else if missing db (props ''language'') Language then True
              else if missing db (props ''license'') LicenseEntity then True
              else if missing db (props ''media'') VideoMedia then True
              else False)"

definition mediaLocation :: "bag \<Rightarrow> store \<Rightarrow> bool promise" where
  "mediaLocation props db =
     Promise (if missing db (props ''joystreamMediaLocation'') JoystreamMediaLocationEntity
              then True
              else if missing db (props ''httpMediaLocation'') HttpMediaLocationEntity then True
              else False)"

definition license :: "bag \<Rightarrow> store \<Rightarrow> bool promise" where
  "license props db =
     Promise (if missing db (props ''knownLicense'') KnownLicenseEntity then True
              else if missing db (props ''userDefinedLicense'') UserDefinedLicenseEntity
              then True
              else False)"

definition featuredVideo :: "bag \<Rightarrow> store \<Rightarrow> bool promise" where
  "featuredVideo props db =
     Promise (case props ''video'' of
                Some v \<Rightarrow> \<not> db_get db Video (IdString (toString (entityId v)))
              | None \<Rightarrow> False)"

subsection \<open>The event dispatcher\<close>

text \<open>
  \<^verbatim>\<open>SubstrateEvent\<close> and its extrinsic, with the fields the dispatcher reads. An element of
  \<^verbatim>\<open>args\<close> may be \<^verbatim>\<open>undefined\<close>. \<open>params\<close> stands for the event's own parameters, which only
  the decoders inspect.
\<close>

record 'v SubstrateExtrinsic =
  method' :: string
  args :: "'v option list"

record 'v SubstrateEvent =
  event_id :: string
  blockNumber :: nat
  params :: "nat list"
  extrinsic :: "'v SubstrateExtrinsic option"

text \<open>The known class that \<^verbatim>\<open>getKnownClass\<close> returns; the dispatcher reads its name.\<close>

record IKnownClass =
  name :: string

datatype error =
    UnknownClassName string
  | ExtrinsicDataNotFound string
  | HandlerFailure string
  | StoreIOFailure string

text \<open>
  What the dispatcher calls and what is not among the sources: the decoders of
  \<^verbatim>\<open>../decode\<close>, the registry lookup \<^verbatim>\<open>getKnownClass\<close> of \<^verbatim>\<open>../get-or-create\<close> (it returns
  the known class, if any, and the ClassEntity row), and the create, update and remove
  handlers of \<^verbatim>\<open>./create\<close>, \<^verbatim>\<open>./update\<close> and \<^verbatim>\<open>./remove\<close>, one per class. A handler maps the
  store to the store it leaves and to the error it throws, if any.
\<close>

record 'v env =
  stringIfyEntityId :: "'v SubstrateEvent \<Rightarrow> string"
  getClassEntity :: "'v SubstrateEvent \<Rightarrow> nat \<times> nat"
  getKnownClass :: "store \<Rightarrow> string \<Rightarrow> IKnownClass option \<times> ClassEntity"
  setProperties :: "'v SubstrateEvent \<Rightarrow> layout \<Rightarrow> bag"
  createHandler ::
    "ContentDirectoryKnownClasses \<Rightarrow> nat \<Rightarrow> string \<Rightarrow> bag \<Rightarrow> store \<Rightarrow> error option \<times> store"
  updateHandler ::
    "ContentDirectoryKnownClasses \<Rightarrow> string \<Rightarrow> bag \<Rightarrow> store \<Rightarrow> error option \<times> store"
  removeHandler ::
    "ContentDirectoryKnownClasses \<Rightarrow> string \<Rightarrow> store \<Rightarrow> error option \<times> store"

text \<open>
  The outcome of handling one event: the error thrown (if any), the store left behind, and
  the calls made to the collaborators, in order.
\<close>

datatype call =
    SetProperties layout
  | ShouldIgnore ContentDirectoryKnownClasses
  | Create ContentDirectoryKnownClasses
  | Update ContentDirectoryKnownClasses
  | Remove ContentDirectoryKnownClasses
  | CreateBlock nat
  | DbSaveClassEntity string
  | DbRemoveClassEntity string
  | NextEntityId nat

record outcome =
  thrown :: "error option"
  final :: store
  calls :: "call list"

definition quiet :: "store \<Rightarrow> call list \<Rightarrow> outcome" where
  "quiet db cs = \<lparr>thrown = None, final = db, calls = cs\<rparr>"

definition throwError :: "error \<Rightarrow> store \<Rightarrow> call list \<Rightarrow> outcome" where
  "throwError e db cs = \<lparr>thrown = Some e, final = db, calls = cs\<rparr>"

definition invoke :: "call \<Rightarrow> (store \<Rightarrow> error option \<times> store) \<Rightarrow> store \<Rightarrow> call list \<Rightarrow> outcome" where
  "invoke c handler db cs =
     (case handler db of (e, db') \<Rightarrow> \<lparr>thrown = e, final = db', calls = cs @ [c]\<rparr>)"

text \<open>\<^verbatim>\<open>event.extrinsic && event.extrinsic.method === 'transaction'\<close>.\<close>

definition isTransaction :: "'v SubstrateEvent \<Rightarrow> bool" where
  "isTransaction event =
     (case extrinsic event of None \<Rightarrow> False | Some x \<Rightarrow> method' x = ''transaction'')"

text \<open>
  The two \<^verbatim>\<open>switch\<close> statements of lines 105 to 190 and 298 to 399 have one \<^verbatim>\<open>case\<close> per
  class, each of one of two shapes:
  \<^verbatim>\<open>await handlerX(..., decode.setProperties<IX>(event, layout))\<close>, or
  \<^verbatim>\<open>const props = decode.setProperties<IX>(event, layout)
    if (shouldIgnore.x(props, db)) return
    await handlerX(..., props, 0)\<close>.
  The tables below list, per class, the check the case calls (lines 108, 144, 151, 169,
  176, 183 and 301, 348, 355, 378, 385, 392) and the layout it passes to the decoder.
  The check is called without \<^verbatim>\<open>await\<close>. In every case the handler is the one named after
  the class.
\<close>

fun shouldIgnore :: "ContentDirectoryKnownClasses \<Rightarrow> (bag \<Rightarrow> store \<Rightarrow> bool promise) option" where
  "shouldIgnore CHANNEL = Some channel"
| "shouldIgnore VIDEOMEDIA = Some videoMedia"
| "shouldIgnore VIDEO = Some video"
| "shouldIgnore FEATUREDVIDEOS = Some featuredVideo"
| "shouldIgnore MEDIALOCATION = Some mediaLocation"
| "shouldIgnore LICENSE = Some license"
| "shouldIgnore CATEGORY = None"
| "shouldIgnore KNOWNLICENSE = None"
| "shouldIgnore USERDEFINEDLICENSE = None"
| "shouldIgnore JOYSTREAMMEDIALOCATION = None"
| "shouldIgnore HTTPMEDIALOCATION = None"
| "shouldIgnore LANGUAGE = None"
| "shouldIgnore VIDEOMEDIAENCODING = None"

text \<open>Lines 105 to 186, the layouts of \<^verbatim>\<open>contentDirectory_EntitySchemaSupportAdded\<close>.\<close>

fun schemaSupportLayout :: "ContentDirectoryKnownClasses \<Rightarrow> layout" where
  "schemaSupportLayout CHANNEL = channelPropertyNamesWithId"
| "schemaSupportLayout CATEGORY = categoryPropertyNamesWithId"
| "schemaSupportLayout KNOWNLICENSE = knownLicensePropertyNamesWIthId"
| "schemaSupportLayout USERDEFINEDLICENSE = userDefinedLicensePropertyNamesWithId"
| "schemaSupportLayout JOYSTREAMMEDIALOCATION = joystreamMediaLocationPropertyNamesWithId"
| "schemaSupportLayout HTTPMEDIALOCATION = httpMediaLocationPropertyNamesWithId"
| "schemaSupportLayout VIDEOMEDIA = videoPropertyNamesWithId"
| "schemaSupportLayout VIDEO = videoPropertyNamesWithId"
| "schemaSupportLayout LANGUAGE = languagePropertyNamesWIthId"
| "schemaSupportLayout VIDEOMEDIAENCODING = videoMediaEncodingPropertyNamesWithId"
| "schemaSupportLayout FEATUREDVIDEOS = featuredVideoPropertyNamesWithId"
| "schemaSupportLayout MEDIALOCATION = mediaLocationPropertyNamesWithId"
| "schemaSupportLayout LICENSE = licensePropertyNamesWithId"

text \<open>Lines 298 to 395, the layouts of \<^verbatim>\<open>contentDirectory_EntityPropertyValuesUpdated\<close>.\<close>

fun propertyUpdateLayout :: "ContentDirectoryKnownClasses \<Rightarrow> layout" where
  "propertyUpdateLayout CHANNEL = channelPropertyNamesWithId"
| "propertyUpdateLayout CATEGORY = categoryPropertyNamesWithId"
| "propertyUpdateLayout KNOWNLICENSE = knownLicensePropertyNamesWIthId"
| "propertyUpdateLayout USERDEFINEDLICENSE = userDefinedLicensePropertyNamesWithId"
| "propertyUpdateLayout JOYSTREAMMEDIALOCATION = joystreamMediaLocationPropertyNamesWithId"
| "propertyUpdateLayout HTTPMEDIALOCATION = httpMediaLocationPropertyNamesWithId"
| "propertyUpdateLayout VIDEOMEDIA = videoPropertyNamesWithId"
| "propertyUpdateLayout VIDEO = videoPropertyNamesWithId"
| "propertyUpdateLayout LANGUAGE = languagePropertyNamesWIthId"
| "propertyUpdateLayout VIDEOMEDIAENCODING = videoMediaEncodingPropertyNamesWithId"
| "propertyUpdateLayout LICENSE = videoMediaEncodingPropertyNamesWithId"
| "propertyUpdateLayout MEDIALOCATION = videoMediaEncodingPropertyNamesWithId"
| "propertyUpdateLayout FEATUREDVIDEOS = featuredVideoPropertyNamesWithId"

text \<open>One \<^verbatim>\<open>case\<close> of either switch, for the class \<open>k\<close>, its layout and its handler.\<close>

definition dispatch ::
  "'v env \<Rightarrow> store \<Rightarrow> 'v SubstrateEvent \<Rightarrow> ContentDirectoryKnownClasses \<Rightarrow> layout \<Rightarrow> call \<Rightarrow>
     (bag \<Rightarrow> store \<Rightarrow> error option \<times> store) \<Rightarrow> outcome"
where
  "dispatch env db event k l c handler =
     (let props = setProperties env event l in
        case shouldIgnore k of
          None \<Rightarrow> invoke c (handler props) db [SetProperties l]
        | Some check \<Rightarrow>
            if ToBoolean (check props db) then quiet db [SetProperties l, ShouldIgnore k]
            else invoke c (handler props) db [SetProperties l, ShouldIgnore k])"

text \<open>Lines 93 to 191.\<close>

definition contentDirectory_EntitySchemaSupportAdded ::
  "'v env \<Rightarrow> store \<Rightarrow> 'v SubstrateEvent \<Rightarrow> outcome"
where
  "contentDirectory_EntitySchemaSupportAdded env db event =
     (if isTransaction event then quiet db []
      else
        let block = blockNumber event;
            entityId = stringIfyEntityId env event
        in case fst (getKnownClass env db entityId) of
             None \<Rightarrow> quiet db []
           | Some knownClass \<Rightarrow>
               (case matchClass (name knownClass) of
                  Some k \<Rightarrow>
                    dispatch env db event k (schemaSupportLayout k) (Create k)
                      (createHandler env k block entityId)
                | None \<Rightarrow> throwError (UnknownClassName (name knownClass)) db []))"

text \<open>
  Lines 194 to 259. Every \<^verbatim>\<open>case\<close> awaits the remove handler named after its class; the
  ClassEntity row is removed after the \<^verbatim>\<open>switch\<close>, which is not reached when the handler
  throws.
\<close>

definition contentDirectory_EntityRemoved :: "'v env \<Rightarrow> store \<Rightarrow> 'v SubstrateEvent \<Rightarrow> outcome" where
  "contentDirectory_EntityRemoved env db event =
     (let entityId = stringIfyEntityId env event in
        case getKnownClass env db entityId of
          (None, classEntity) \<Rightarrow> quiet db []
        | (Some knownClass, classEntity) \<Rightarrow>
            (case matchClass (name knownClass) of
               None \<Rightarrow> throwError (UnknownClassName (name knownClass)) db []
             | Some k \<Rightarrow>
                 (case removeHandler env k entityId db of
                    (Some e, db') \<Rightarrow> \<lparr>thrown = Some e, final = db', calls = [Remove k]\<rparr>
                  | (None, db') \<Rightarrow>
                      \<lparr>thrown = None, final = db_remove classEntity db',
                       calls = [Remove k, DbRemoveClassEntity (id' classEntity)]\<rparr>)))"

text \<open>
  Lines 194 to 259 once more, for a store that may fail: \<^verbatim>\<open>db.remove\<close> of line 258 is the
  parameter \<open>dbRemove\<close>, which maps the row and the store to the error it rejects with, if
  any, and to the store it leaves. A rejection propagates out of the handler; nothing is
  rolled back.
\<close>

definition contentDirectory_EntityRemoved_io ::
  "(ClassEntity \<Rightarrow> store \<Rightarrow> error option \<times> store) \<Rightarrow> 'v env \<Rightarrow> store \<Rightarrow> 'v SubstrateEvent \<Rightarrow> outcome"
where
  "contentDirectory_EntityRemoved_io dbRemove env db event =
     (let entityId = stringIfyEntityId env event in
        case getKnownClass env db entityId of
          (None, classEntity) \<Rightarrow> quiet db []
        | (Some knownClass, classEntity) \<Rightarrow>
            (case matchClass (name knownClass) of
               None \<Rightarrow> throwError (UnknownClassName (name knownClass)) db []
             | Some k \<Rightarrow>
                 (case removeHandler env k entityId db of
                    (Some e, db') \<Rightarrow> \<lparr>thrown = Some e, final = db', calls = [Remove k]\<rparr>
                  | (None, db') \<Rightarrow>
                      (case dbRemove classEntity db' of
                         (e, db'') \<Rightarrow>
                           \<lparr>thrown = e, final = db'',
                            calls = [Remove k, DbRemoveClassEntity (id' classEntity)]\<rparr>))))"

text \<open>
  Two stores: one whose \<^verbatim>\<open>remove\<close> succeeds, as \<open>db_remove\<close> above, and one whose
  \<^verbatim>\<open>remove\<close> rejects and leaves the rows as they are (a store I/O failure, section 7 of
  the specification).
\<close>

definition succeedingRemove :: "ClassEntity \<Rightarrow> store \<Rightarrow> error option \<times> store" where
  "succeedingRemove row db = (None, db_remove row db)"

definition rejectingRemove :: "ClassEntity \<Rightarrow> store \<Rightarrow> error option \<times> store" where
  "rejectingRemove row db = (Some (StoreIOFailure ''remove''), db)"

text \<open>Lines 262 to 276.\<close>

definition contentDirectory_EntityCreated :: "'v env \<Rightarrow> store \<Rightarrow> 'v SubstrateEvent \<Rightarrow> outcome" where
  "contentDirectory_EntityCreated env db event =
     (if isTransaction event then quiet db []
      else
        case getClassEntity env event of
          (c_classId, c_entityId) \<Rightarrow>
            (case createBlockOrGetFromDatabase db (blockNumber event) of
               (block, db1) \<Rightarrow>
                 let classEntity =
                       \<lparr>id' = toString c_entityId, classId = c_classId,
                        version = blockNumber event, happenedIn = block\<rparr>;
                     db2 = db_save classEntity db1;
                     db3 = getOrCreate_nextEntityId db2 (c_entityId + 1)
                 in \<lparr>thrown = None, final = db3,
                     calls = [CreateBlock (blockNumber event),
                              DbSaveClassEntity (id' classEntity),
                              NextEntityId (c_entityId + 1)]\<rparr>))"

text \<open>
  Lines 286 and 296: \<^verbatim>\<open>const { 2: newPropertyValues } = extrinsic.args\<close> reads the third
  argument, \<^verbatim>\<open>undefined\<close> when there is none, and \<^verbatim>\<open>extrinsic.args.push(newPropertyValues)\<close>
  appends it to the arguments of the event before the decoder is called.
\<close>

definition pushNewPropertyValues :: "'v SubstrateExtrinsic \<Rightarrow> 'v SubstrateExtrinsic" where
  "pushNewPropertyValues x =
     (let newPropertyValues = (if 2 < length (args x) then args x ! 2 else None)
      in x\<lparr>args := args x @ [newPropertyValues]\<rparr>)"

text \<open>Lines 279 to 400.\<close>

definition contentDirectory_EntityPropertyValuesUpdated ::
  "'v env \<Rightarrow> store \<Rightarrow> 'v SubstrateEvent \<Rightarrow> outcome"
where
  "contentDirectory_EntityPropertyValuesUpdated env db event =
     (case extrinsic event of
        None \<Rightarrow> throwError (ExtrinsicDataNotFound (event_id event)) db []
      | Some x \<Rightarrow>
          if method' x = ''transaction'' then quiet db []
          else
            let entityId = stringIfyEntityId env event
            in case fst (getKnownClass env db entityId) of
                 None \<Rightarrow> quiet db []
               | Some knownClass \<Rightarrow>
                   let pushed = event\<lparr>extrinsic := Some (pushNewPropertyValues x)\<rparr>
                   in case matchClass (name knownClass) of
                        Some k \<Rightarrow>
                          dispatch env db pushed k (propertyUpdateLayout k) (Update k)
                            (updateHandler env k entityId)
                      | None \<Rightarrow> throwError (UnknownClassName (name knownClass)) db [])"

text \<open>
  Notions used to state what the dispatcher does. \<open>checkedReferences k props\<close> lists the
  properties that the single-entity check of class \<open>k\<close> reads, each with the model it is
  looked up in (lines 193 to 274), in the order of the tests. \<open>classLayout k\<close> is the
  layout that \<^verbatim>\<open>content-dir-consts\<close> names after the class \<open>k\<close>; the validator decodes the
  entities of a class with it (lines 66, 78, 98, 134, 153 and 174).
\<close>

fun checkedReferences :: "ContentDirectoryKnownClasses \<Rightarrow> bag \<Rightarrow> (IReference option \<times> model) list" where
  "checkedReferences CHANNEL props = [(props ''language'', Language)]"
| "checkedReferences VIDEOMEDIA props =
     [(props ''encoding'', VideoMediaEncoding), (props ''location'', MediaLocationEntity)]"
| "checkedReferences VIDEO props =
     [(props ''category'', Category), (props ''channel'', Channel),
      (props ''language'', Language), (props ''license'', LicenseEntity),
      (props ''media'', VideoMedia)]"
| "checkedReferences MEDIALOCATION props =
     [(props ''joystreamMediaLocation'', JoystreamMediaLocationEntity),
      (props ''httpMediaLocation'', HttpMediaLocationEntity)]"
| "checkedReferences LICENSE props =
     [(props ''knownLicense'', KnownLicenseEntity),
      (props ''userDefinedLicense'', UserDefinedLicenseEntity)]"
| "checkedReferences FEATUREDVIDEOS props = [(props ''video'', Video)]"
| "checkedReferences k props = []"

fun classLayout :: "ContentDirectoryKnownClasses \<Rightarrow> layout" where
  "classLayout CHANNEL = channelPropertyNamesWithId"
| "classLayout CATEGORY = categoryPropertyNamesWithId"
| "classLayout KNOWNLICENSE = knownLicensePropertyNamesWIthId"
| "classLayout USERDEFINEDLICENSE = userDefinedLicensePropertyNamesWithId"
| "classLayout JOYSTREAMMEDIALOCATION = joystreamMediaLocationPropertyNamesWithId"
| "classLayout HTTPMEDIALOCATION = httpMediaLocationPropertyNamesWithId"
| "classLayout VIDEOMEDIA = videoMediaPropertyNamesWithId"
| "classLayout VIDEO = videoPropertyNamesWithId"
| "classLayout LANGUAGE = languagePropertyNamesWIthId"
| "classLayout VIDEOMEDIAENCODING = videoMediaEncodingPropertyNamesWithId"
| "classLayout FEATUREDVIDEOS = featuredVideoPropertyNamesWithId"
| "classLayout MEDIALOCATION = mediaLocationPropertyNamesWithId"
| "classLayout LICENSE = licensePropertyNamesWithId"

subsection \<open>Concrete batches\<close>

text \<open>
  Inputs on which the validator is evaluated below. The raw properties of an entity are the
  decoded bag itself, the decoder returns them whatever the layout, each creating operation
  carries the name of its class, and a store is the list of its rows; a where-clause whose
  id is not a string selects none of them.
\<close>

definition getClassName0 :: "bag IEntity \<Rightarrow> string list \<Rightarrow> string option" where
  "getClassName0 entity createEntityOperations =
     (case indexOf entity of
        None \<Rightarrow> None
      | Some i \<Rightarrow>
          if i < length createEntityOperations then Some (createEntityOperations ! i) else None)"

definition decode0 :: "bag \<Rightarrow> layout \<Rightarrow> bag" where
  "decode0 p l = p"

definition bagOf :: "(string \<times> IReference) list \<Rightarrow> bag" where
  "bagOf ps = map_of ps"

definition rowsOf :: "(model \<times> string) list \<Rightarrow> db_get" where
  "rowsOf rows M k =
     (case k of IdString i \<Rightarrow> (M, i) \<in> set rows | NumberToStringMethod \<Rightarrow> False)"

definition slotOf :: "nat \<Rightarrow> bool \<Rightarrow> model \<Rightarrow> where_id \<Rightarrow> string \<Rightarrow> slot" where
  "slotOf i e M K C =
     \<lparr>reference = \<lparr>entityId = i, existing = e\<rparr>, target_model = M, where_key = K,
      target_class = C\<rparr>"

definition featuredVideoEntity :: "bag IEntity" where
  "featuredVideoEntity =
     \<lparr>indexOf = Some 0, properties = bagOf [(''video'', \<lparr>entityId = 5, existing = True\<rparr>)]\<rparr>"

definition videoEntity0 :: "bag IEntity" where
  "videoEntity0 =
     \<lparr>indexOf = Some 0,
      properties = bagOf [(''channel'', \<lparr>entityId = 7, existing = True\<rparr>),
                          (''language'', \<lparr>entityId = 9, existing = True\<rparr>),
                          (''media'', \<lparr>entityId = 4, existing = True\<rparr>)]\<rparr>"

definition channelEntity1 :: "bag IEntity" where
  "channelEntity1 =
     \<lparr>indexOf = Some 1,
      properties = bagOf [(''language'', \<lparr>entityId = 2, existing = True\<rparr>)]\<rparr>"

definition videoEntityA :: "bag IEntity" where
  "videoEntityA =
     \<lparr>indexOf = Some 0,
      properties = bagOf [(''channel'', \<lparr>entityId = 1, existing = False\<rparr>)]\<rparr>"

definition channelEntityB :: "bag IEntity" where
  "channelEntityB = \<lparr>indexOf = Some 1, properties = bagOf []\<rparr>"

subsection \<open>A concrete environment\<close>

text \<open>
  An environment and a store on which the dispatcher is evaluated below. The first
  parameter of an event is the entity id, the second (for a creation) the class id. The
  registry knows six classes by id, the last of which, Playlist, is outside the
  enumeration. The decoder returns the bag found as fourth argument of the extrinsic. The
  create handler inserts the typed row of the entity, the remove handler deletes it and
  throws when it is absent, the update handler leaves the rows as they are.
\<close>

fun table0 :: "ContentDirectoryKnownClasses \<Rightarrow> model" where
  "table0 CHANNEL = Channel"
| "table0 CATEGORY = Category"
| "table0 KNOWNLICENSE = KnownLicenseEntity"
| "table0 USERDEFINEDLICENSE = UserDefinedLicenseEntity"
| "table0 JOYSTREAMMEDIALOCATION = JoystreamMediaLocationEntity"
| "table0 HTTPMEDIALOCATION = HttpMediaLocationEntity"
| "table0 VIDEOMEDIA = VideoMedia"
| "table0 VIDEO = Video"
| "table0 LANGUAGE = Language"
| "table0 VIDEOMEDIAENCODING = VideoMediaEncoding"
| "table0 FEATUREDVIDEOS = FeaturedVideo"
| "table0 MEDIALOCATION = MediaLocationEntity"
| "table0 LICENSE = LicenseEntity"

definition classNames0 :: "nat \<Rightarrow> string option" where
  "classNames0 =
     map_of [(1, ''Channel''), (2, ''Category''), (3, ''Video''), (4, ''VideoMedia''),
             (5, ''License''), (6, ''Playlist'')]"

definition getKnownClass0 :: "store \<Rightarrow> string \<Rightarrow> IKnownClass option \<times> ClassEntity" where
  "getKnownClass0 db w =
     (case classEntities db w of
        None \<Rightarrow> (None, \<lparr>id' = w, classId = 0, version = 0, happenedIn = 0\<rparr>)
      | Some ce \<Rightarrow> (map_option (\<lambda>n. \<lparr>name = n\<rparr>) (classNames0 (classId ce)), ce))"

definition stringIfyEntityId0 :: "bag SubstrateEvent \<Rightarrow> string" where
  "stringIfyEntityId0 event = (case params event of [] \<Rightarrow> [] | e # rest \<Rightarrow> toString e)"

definition getClassEntity0 :: "bag SubstrateEvent \<Rightarrow> nat \<times> nat" where
  "getClassEntity0 event = (case params event of [e, c] \<Rightarrow> (c, e) | _ \<Rightarrow> (0, 0))"

definition setProperties0 :: "bag SubstrateEvent \<Rightarrow> layout \<Rightarrow> bag" where
  "setProperties0 event l =
     (case extrinsic event of
        None \<Rightarrow> bagOf []
      | Some x \<Rightarrow>
          if 3 < length (args x) then (case args x ! 3 of Some b \<Rightarrow> b | None \<Rightarrow> bagOf [])
          else bagOf [])"

definition createHandler0 ::
  "ContentDirectoryKnownClasses \<Rightarrow> nat \<Rightarrow> string \<Rightarrow> bag \<Rightarrow> store \<Rightarrow> error option \<times> store"
where
  "createHandler0 k b w props db = (None, db\<lparr>typed := insert (table0 k, w) (typed db)\<rparr>)"

definition updateHandler0 ::
  "ContentDirectoryKnownClasses \<Rightarrow> string \<Rightarrow> bag \<Rightarrow> store \<Rightarrow> error option \<times> store"
where
  "updateHandler0 k w props db = (None, db)"

definition removeHandler0 ::
  "ContentDirectoryKnownClasses \<Rightarrow> string \<Rightarrow> store \<Rightarrow> error option \<times> store"
where
  "removeHandler0 k w db =
     (if (table0 k, w) \<in> typed db then (None, db\<lparr>typed := typed db - {(table0 k, w)}\<rparr>)
      else (Some (HandlerFailure ''row not found''), db))"

definition env0 :: "bag env" where
  "env0 =
     \<lparr>stringIfyEntityId = stringIfyEntityId0, getClassEntity = getClassEntity0,
      getKnownClass = getKnownClass0, setProperties = setProperties0,
      createHandler = createHandler0, updateHandler = updateHandler0,
      removeHandler = removeHandler0\<rparr>"

definition classEntity0 :: "string \<Rightarrow> nat \<Rightarrow> ClassEntity" where
  "classEntity0 w c = \<lparr>id' = w, classId = c, version = 90, happenedIn = 90\<rparr>"

definition store0 :: store where
  "store0 =
     \<lparr>classEntities =
        map_of [(''10'', classEntity0 ''10'' 1), (''11'', classEntity0 ''11'' 4),
                (''12'', classEntity0 ''12'' 6), (''13'', classEntity0 ''13'' 3),
                (''14'', classEntity0 ''14'' 5), (''15'', classEntity0 ''15'' 2)],
      typed = {(Language, ''1''), (Video, ''13'')},
      nextEntityId = Some 16,
      blocks = {90}\<rparr>"

definition event0 :: "string \<Rightarrow> nat list \<Rightarrow> bag option list \<Rightarrow> bag SubstrateEvent" where
  "event0 m ps as =
     \<lparr>event_id = ''0-1'', blockNumber = 100, params = ps,
      extrinsic = Some \<lparr>method' = m, args = as\<rparr>\<rparr>"

text \<open>
  Events on this environment: updates of an entity without a ClassEntity row (99) and of
  a Playlist entity (12); schema attachments of a Channel (10) whose language is in the
  store, of a Category (15), of a Video (13) whose channel is not in the store and of a
  VideoMedia (11); updates of the Video and of a License (14); removals of the Video, whose
  typed row exists, and of the Channel, whose typed row does not; the creation of entity 20
  of the Playlist class; and a removal wrapped in a \<^verbatim>\<open>transaction\<close> extrinsic.
\<close>

definition unknownEntityEvent :: "bag SubstrateEvent" where
  "unknownEntityEvent = event0 ''updateEntityPropertyValues'' [99] [None, None, Some (bagOf [])]"

definition playlistEvent :: "bag SubstrateEvent" where
  "playlistEvent = event0 ''updateEntityPropertyValues'' [12] [None, None, Some (bagOf [])]"

definition channelAttachEvent :: "bag SubstrateEvent" where
  "channelAttachEvent =
     event0 ''addSchemaSupportToEntity'' [10]
       [None, None, None, Some (bagOf [(''language'', \<lparr>entityId = 1, existing = True\<rparr>)])]"

definition categoryAttachEvent :: "bag SubstrateEvent" where
  "categoryAttachEvent =
     event0 ''addSchemaSupportToEntity'' [15] [None, None, None, Some (bagOf [])]"

definition videoAttachEvent :: "bag SubstrateEvent" where
  "videoAttachEvent =
     event0 ''addSchemaSupportToEntity'' [13]
       [None, None, None, Some (bagOf [(''channel'', \<lparr>entityId = 7, existing = True\<rparr>)])]"

definition videoUpdateEvent :: "bag SubstrateEvent" where
  "videoUpdateEvent =
     event0 ''updateEntityPropertyValues'' [13]
       [None, None, Some (bagOf [(''channel'', \<lparr>entityId = 7, existing = True\<rparr>)])]"

definition videoMediaAttachEvent :: "bag SubstrateEvent" where
  "videoMediaAttachEvent =
     event0 ''addSchemaSupportToEntity'' [11] [None, None, None, Some (bagOf [])]"

definition licenseUpdateEvent :: "bag SubstrateEvent" where
  "licenseUpdateEvent =
     event0 ''updateEntityPropertyValues'' [14] [None, None, Some (bagOf [])]"

definition videoRemovedEvent :: "bag SubstrateEvent" where
  "videoRemovedEvent = event0 ''removeEntity'' [13] []"

definition wrappedRemovedEvent :: "bag SubstrateEvent" where
  "wrappedRemovedEvent = event0 ''transaction'' [13] []"

definition channelRemovedEvent :: "bag SubstrateEvent" where
  "channelRemovedEvent = event0 ''removeEntity'' [10] []"

definition playlistCreatedEvent :: "bag SubstrateEvent" where
  "playlistCreatedEvent = event0 ''createEntity'' [20, 6] []"

section \<open>Properties of the validator\<close>

subsection \<open>The scan as one pass over the batch's references\<close>

lemma run_append:
  "run (fs @ gs) s = (case run fs s of Return r \<Rightarrow> Return r | Next s' \<Rightarrow> run gs s')"
  by (induction fs arbitrary: s) (auto split: flow.splits)

lemma run_nested:
  "run (map (\<lambda>x. run (map f (g x))) xs) s = run (map f (concat (map g xs))) s"
  by (induction xs arbitrary: s) (auto simp: run_append split: flow.splits)

lemma step_unresolved:
  "step db m s (b, log) =
     (if unresolved db m s then Return (True, log @ queriesOf [s])
      else Next (False, log @ queriesOf [s]))"
  by (simp add: step_def unresolved_def queriesOf_def Let_def)

lemma run_steps:
  "run (map (step db m) ss) (False, log) =
     (if list_ex (unresolved db m) ss
      then Return (True, log @ queriesOf (scanned (unresolved db m) ss))
      else Next (False, log @ queriesOf ss))"
proof (induction ss arbitrary: log)
  case Nil
  show ?case by (simp add: queriesOf_def)
next
  case (Cons s ss)
  show ?case
    using Cons.IH [of "log @ queriesOf [s]"]
    by (simp add: step_unresolved queriesOf_def)
qed

lemma scanned_none: "\<not> list_ex P xs \<Longrightarrow> scanned P xs = xs"
  by (induction xs) auto

lemma scanned_first:
  "\<not> list_ex P pre \<Longrightarrow> P s \<Longrightarrow> scanned P (pre @ s # post) = pre @ [s]"
  by (induction pre) auto

lemma transaction_scan:
  "transaction db gcn dec ops entities =
     (let m = buildClassEntityMap (\<lambda>e. gcn e ops) entities [];
          ss = batchReferences dec m
      in (list_ex (unresolved db m) ss, queriesOf (scanned (unresolved db m) ss)))"
proof -
  define m where "m = buildClassEntityMap (\<lambda>e. gcn e ops) entities []"
  have flat:
    "run (map (\<lambda>(cn, es).
                 run (map (\<lambda>entity. run (map (step db m) (entityReferences dec cn entity))) es))
            m') s
       = run (map (step db m) (batchReferences dec m')) s" for m' s
  proof -
    have "(\<lambda>(cn, es).
             run (map (\<lambda>entity. run (map (step db m) (entityReferences dec cn entity))) es))
        = (\<lambda>x. run (map (step db m)
                        (case x of (cn, es) \<Rightarrow> concat (map (entityReferences dec cn) es))))"
      by (auto simp: fun_eq_iff run_nested)
    then show ?thesis
      by (simp add: run_nested batchReferences_def)
  qed
  show ?thesis
    unfolding transaction_def Let_def m_def [symmetric] flat
    by (simp add: run_steps scanned_none)
qed

subsection \<open>The class-entity map\<close>

lemma map_of_buildClassEntityMap:
  "map_of (buildClassEntityMap g es m) cn =
     (case map_of m cn of
        None \<Rightarrow> (if filter (\<lambda>e. g e = Some cn) es = [] then None
                 else Some (filter (\<lambda>e. g e = Some cn) es))
      | Some old \<Rightarrow> Some (old @ filter (\<lambda>e. g e = Some cn) es))"
  by (induction es arbitrary: m) (auto simp: update_conv' split: option.splits)




subsection \<open>The id a query carries\<close>

text \<open>
  Every reference of every class but FeaturedVideo is looked up under its referenced id,
  and is then resolved as the specification words it; the reference of a FeaturedVideo
  entity is looked up under the method.
\<close>

lemma guarded_where_key:
  "s \<in> set (guarded ro M K C) \<Longrightarrow> where_key s = K (reference s)"
  by (cases ro) auto

lemma entityReferences_where_key:
  assumes "s \<in> set (entityReferences dec cn e)"
  shows "where_key s =
           (if matchClass cn = Some FEATUREDVIDEOS then NumberToStringMethod
            else IdString (toString (entityId (reference s))))"
proof (cases "matchClass cn")
  case None
  with assms show ?thesis by (simp add: entityReferences_def)
next
  case (Some k)
  with assms show ?thesis
    by (cases k)
       (auto simp: entityReferences_def Let_def byId_def byMethod_def dest!: guarded_where_key)
qed

lemma unresolved_as_claimed:
  "where_key s = IdString (toString (entityId (reference s))) \<Longrightarrow>
     unresolved db m s = claimedUnresolved db m s"
  by (simp add: unresolved_def claimedUnresolved_def)

lemma unresolved_batch_as_claimed:
  "list_all (\<lambda>s. where_key s = IdString (toString (entityId (reference s)))) ss \<Longrightarrow>
     list_ex (unresolved db m) ss = list_ex (claimedUnresolved db m) ss"
  by (induction ss) (simp_all add: unresolved_as_claimed)

text \<open>
  The validator's lookup among the entities of the batch finds exactly the entities of the
  target class whose index is the referenced id; so for a batch whose references are all
  queried by id, the validator ignores the batch exactly when some reference is unresolved
  as the specification words it.
\<close>

lemma find_filter_None:
  "(find P (filter Q es) = None) = (\<not> list_ex (\<lambda>e. Q e \<and> P e) es)"
  by (induction es) auto

lemma getEntity_batch:
  "getEntity (buildClassEntityMap g es []) cn k
     = (\<not> list_ex (\<lambda>e. g e = Some cn \<and> indexOf e = Some k) es)"
proof (cases "filter (\<lambda>e. g e = Some cn) es = []")
  case True
  then have "\<not> list_ex (\<lambda>e. g e = Some cn \<and> indexOf e = Some k) es"
    by (auto simp: list_ex_iff filter_empty_conv)
  with True show ?thesis
    by (simp add: getEntity_def map_of_buildClassEntityMap)
next
  case False
  have eq: "(find (\<lambda>e. indexOf e = Some k) (filter (\<lambda>e. g e = Some cn) es) = None)
              = (\<not> list_ex (\<lambda>e. g e = Some cn \<and> indexOf e = Some k) es)"
    by (rule find_filter_None)
  show ?thesis
  proof (cases "find (\<lambda>e. indexOf e = Some k) (filter (\<lambda>e. g e = Some cn) es)")
    case None
    with eq False show ?thesis
      by (simp add: getEntity_def map_of_buildClassEntityMap)
  next
    case (Some e)
    with eq False show ?thesis
      by (simp add: getEntity_def map_of_buildClassEntityMap)
  qed
qed

lemma unresolved_as_specified:
  "where_key s = IdString (toString (entityId (reference s))) \<Longrightarrow>
     unresolved db (buildClassEntityMap g es []) s = specUnresolved db g es s"
  by (simp add: unresolved_def specUnresolved_def getEntity_batch)

lemma transaction_as_specified:
  assumes "list_all (\<lambda>s. where_key s = IdString (toString (entityId (reference s))))
             (batchReferences dec (buildClassEntityMap (\<lambda>e. gcn e ops) entities []))"
  shows "fst (transaction db gcn dec ops entities)
           = list_ex (specUnresolved db (\<lambda>e. gcn e ops) entities)
               (batchReferences dec (buildClassEntityMap (\<lambda>e. gcn e ops) entities []))"
proof -
  have "list_ex (unresolved db (buildClassEntityMap g es [])) ss
          = list_ex (specUnresolved db g es) ss"
    if "list_all (\<lambda>s. where_key s = IdString (toString (entityId (reference s)))) ss"
    for ss and g :: "'a IEntity \<Rightarrow> string option" and es
    using that by (induction ss) (simp_all add: unresolved_as_specified)
  with assms show ?thesis
    by (simp add: transaction_scan Let_def)
qed

subsection \<open>Evaluation of the concrete batches\<close>

lemma toString_Suc_0: "toString (Suc 0) = ''1''"
  by (subst toString.simps) (simp add: digit_def)

lemma toString_digits:
  "toString 1 = ''1''" "toString 2 = ''2''" "toString 4 = ''4''" "toString 5 = ''5''"
  "toString 7 = ''7''" "toString 9 = ''9''" "toString 10 = ''10''"
  by (simp_all add: toString.simps toString_Suc_0 digit_def)

lemma matchClass_simps:
  "matchClass ''Channel'' = Some CHANNEL"
  "matchClass ''Video'' = Some VIDEO"
  "matchClass ''FeaturedVideo'' = Some FEATUREDVIDEOS"
  "matchClass ''Language'' = Some LANGUAGE"
  "matchClass ''Playlist'' = None"
  by (simp_all add: matchClass_def allKnownClasses_def)

lemma featured_batch_map:
  "buildClassEntityMap (\<lambda>e. getClassName0 e [''FeaturedVideo'']) [featuredVideoEntity] []
     = [(''FeaturedVideo'', [featuredVideoEntity])]"
  by (simp add: getClassName0_def featuredVideoEntity_def)

lemma featured_refs:
  "entityReferences decode0 ''FeaturedVideo'' featuredVideoEntity
     = [slotOf 5 True Video NumberToStringMethod ''Video'']"
  by (simp add: entityReferences_def matchClass_simps decode0_def featuredVideoEntity_def
      bagOf_def byMethod_def slotOf_def)

lemma fail_fast_batch_map:
  "buildClassEntityMap (\<lambda>e. getClassName0 e [''Video'', ''Channel''])
     [videoEntity0, channelEntity1] []
     = [(''Video'', [videoEntity0]), (''Channel'', [channelEntity1])]"
  by (simp add: getClassName0_def videoEntity0_def channelEntity1_def)

lemma fail_fast_batch_refs:
  "batchReferences decode0 [(''Video'', [videoEntity0]), (''Channel'', [channelEntity1])]
     = [slotOf 7 True Channel (IdString ''7'') ''Channel'']
       @ slotOf 9 True Language (IdString ''9'') ''Language''
       # [slotOf 4 True VideoMedia (IdString ''4'') ''VideoMedia'',
          slotOf 2 True Language (IdString ''2'') ''Language'']"
  by (simp add: batchReferences_def entityReferences_def matchClass_simps decode0_def
      videoEntity0_def channelEntity1_def bagOf_def byId_def slotOf_def toString_digits)


lemma forward_refs:
  "entityReferences decode0 ''Video'' videoEntityA
     = [slotOf 1 False Channel (IdString ''1'') ''Channel'']"
  "entityReferences decode0 ''Channel'' channelEntityB = []"
  by (simp_all add: entityReferences_def matchClass_simps decode0_def videoEntityA_def
      channelEntityB_def bagOf_def byId_def slotOf_def toString_Suc_0)

lemma featured_channel_batch_map:
  "buildClassEntityMap (\<lambda>e. getClassName0 e [''FeaturedVideo'', ''Channel''])
     [featuredVideoEntity, channelEntityB] []
     = [(''FeaturedVideo'', [featuredVideoEntity]), (''Channel'', [channelEntityB])]"
  by (simp add: getClassName0_def featuredVideoEntity_def channelEntityB_def)

lemma featured_channel_refs:
  "batchReferences decode0
     [(''FeaturedVideo'', [featuredVideoEntity]), (''Channel'', [channelEntityB])]
     = [slotOf 5 True Video NumberToStringMethod ''Video'']"
  by (simp add: batchReferences_def featured_refs forward_refs)

subsection \<open>Claims about the validator\<close>

text \<open>
  C1 (the code departs from the claim). The claim: an existing reference is resolved by
  querying the store for a row of the target class with the referenced id. For the
  \<^verbatim>\<open>video\<close> reference of a FeaturedVideo entity the validator sends the method
  \<^verbatim>\<open>video.entityId.toString\<close> as the id (line 178), not the referenced id. On the batch of
  one FeaturedVideo entity that references the existing video 5, the only query is
  \<open>(Video, NumberToStringMethod)\<close> whatever the store; with the row \<open>(Video, ''5'')\<close> in the
  store the batch is ignored, although no reference of the batch is unresolved in the
  claim's sense.
\<close>

theorem featured_video_existing_reference_query:
  "transaction db getClassName0 decode0 [''FeaturedVideo''] [featuredVideoEntity]
     = (\<not> db Video NumberToStringMethod, [(Video, NumberToStringMethod)])
   \<and> transaction (rowsOf [(Video, ''5'')]) getClassName0 decode0 [''FeaturedVideo'']
       [featuredVideoEntity]
     = (True, [(Video, NumberToStringMethod)])
   \<and> list_ex (claimedUnresolved (rowsOf [(Video, ''5'')])
                [(''FeaturedVideo'', [featuredVideoEntity])])
       (batchReferences decode0 [(''FeaturedVideo'', [featuredVideoEntity])]) = False"
  by (simp add: transaction_scan featured_batch_map batchReferences_def featured_refs
      unresolved_def claimedUnresolved_def queriesOf_def Let_def rowsOf_def toString_digits
      slotOf_def del: buildClassEntityMap.simps)

text \<open>
  C2 (the code departs from the claim). The claim: the validator returns the ignore
  outcome exactly when some reference of the batch is unresolved. On the batch of a
  FeaturedVideo entity that references the existing video 5 and of a Channel entity
  without references, with the row \<open>(Video, ''5'')\<close> in the store, no reference is
  unresolved, and the validator returns the ignore outcome after its one query, sent with
  the method as id (line 178).
\<close>

theorem resolved_batch_ignored:
  "transaction (rowsOf [(Video, ''5'')]) getClassName0 decode0
     [''FeaturedVideo'', ''Channel''] [featuredVideoEntity, channelEntityB]
     = (True, [(Video, NumberToStringMethod)])
   \<and> list_ex (specUnresolved (rowsOf [(Video, ''5'')])
                (\<lambda>e. getClassName0 e [''FeaturedVideo'', ''Channel''])
                [featuredVideoEntity, channelEntityB])
       (batchReferences decode0
          (buildClassEntityMap (\<lambda>e. getClassName0 e [''FeaturedVideo'', ''Channel''])
             [featuredVideoEntity, channelEntityB] []))
     = False"
  by (simp add: transaction_scan Let_def featured_channel_batch_map featured_channel_refs
      unresolved_def specUnresolved_def queriesOf_def rowsOf_def slotOf_def toString_digits
      del: buildClassEntityMap.simps)

text \<open>
  The control flow of the scan, with \<open>ss\<close> the references of the batch in scanning order
  and a reference unresolved when the validator's own resolution of it fails: the outcome
  is \<open>True\<close> exactly when some reference is unresolved; the queries sent are those of the
  references up to and including the first unresolved one; so when \<open>s\<close> is the first
  unresolved reference nothing after \<open>s\<close> is scanned; and when no reference is unresolved
  the outcome is \<open>False\<close> after every reference was scanned.
\<close>

lemma transaction_fail_fast:
  "(let m = buildClassEntityMap (\<lambda>e. gcn e ops) entities [];
        ss = batchReferences dec m;
        out = transaction db gcn dec ops entities
    in fst out = list_ex (unresolved db m) ss
     \<and> snd out = queriesOf (scanned (unresolved db m) ss)
     \<and> (ss = pre @ s # post \<and> \<not> list_ex (unresolved db m) pre \<and> unresolved db m s
           \<longrightarrow> out = (True, queriesOf (pre @ [s])))
     \<and> (\<not> list_ex (unresolved db m) ss \<longrightarrow> out = (False, queriesOf ss)))"
proof -
  define m where "m = buildClassEntityMap (\<lambda>e. gcn e ops) entities []"
  define ss where "ss = batchReferences dec m"
  define out where "out = transaction db gcn dec ops entities"
  have out: "out = (list_ex (unresolved db m) ss, queriesOf (scanned (unresolved db m) ss))"
    by (simp add: out_def transaction_scan Let_def m_def ss_def)
  have first: "out = (True, queriesOf (pre @ [s]))"
    if "ss = pre @ s # post" "\<not> list_ex (unresolved db m) pre" "unresolved db m s"
    using that by (simp add: out scanned_first)
  have none: "out = (False, queriesOf ss)" if "\<not> list_ex (unresolved db m) ss"
    using that by (simp add: out scanned_none)
  show ?thesis
    unfolding Let_def m_def [symmetric] ss_def [symmetric] out_def [symmetric]
    using first none by (simp add: out)
qed

text \<open>
  An instance: a Video entity whose channel resolves in the store and whose language does
  not, followed by a media reference and by a Channel entity. The scan stops at the
  language: two queries are sent, the media reference and the Channel entity are not
  reached.
\<close>

lemma transaction_fail_fast_instance:
  "transaction (rowsOf [(Channel, ''7''), (Language, ''2'')]) getClassName0 decode0
     [''Video'', ''Channel''] [videoEntity0, channelEntity1]
     = (True, [(Channel, IdString ''7''), (Language, IdString ''9'')])"
proof -
  let ?db = "rowsOf [(Channel, ''7''), (Language, ''2'')]"
  let ?m = "[(''Video'', [videoEntity0]), (''Channel'', [channelEntity1])]"
  have pre: "\<not> list_ex (unresolved ?db ?m) [slotOf 7 True Channel (IdString ''7'') ''Channel'']"
    by (simp add: unresolved_def slotOf_def rowsOf_def)
  have s: "unresolved ?db ?m (slotOf 9 True Language (IdString ''9'') ''Language'')"
    by (simp add: unresolved_def slotOf_def rowsOf_def)
  have q: "queriesOf ([slotOf 7 True Channel (IdString ''7'') ''Channel'']
             @ [slotOf 9 True Language (IdString ''9'') ''Language''])
           = [(Channel, IdString ''7''), (Language, IdString ''9'')]"
    by (simp add: queriesOf_def slotOf_def)
  show ?thesis
    using transaction_fail_fast [of getClassName0 "[''Video'', ''Channel'']"
        "[videoEntity0, channelEntity1]" decode0 ?db
        "[slotOf 7 True Channel (IdString ''7'') ''Channel'']"
        "slotOf 9 True Language (IdString ''9'') ''Language''"
        "[slotOf 4 True VideoMedia (IdString ''4'') ''VideoMedia'',
          slotOf 2 True Language (IdString ''2'') ''Language'']"]
    unfolding Let_def fail_fast_batch_map fail_fast_batch_refs
    using pre s q by simp
qed



section \<open>Properties of the dispatcher\<close>

subsection \<open>The switch and the concrete environment\<close>

lemma matchClass_className: "matchClass (className k) = Some k"
  by (cases k) (simp_all add: matchClass_def allKnownClasses_def)

lemma matchClass_Some: "matchClass n = Some k \<Longrightarrow> className k = n"
  unfolding matchClass_def by (drule find_Some_iff [THEN iffD1]) auto

lemma toString_small: "n < 10 \<Longrightarrow> toString n = [digit n]"
  by (subst toString.simps) simp

lemma toString_large: "10 \<le> n \<Longrightarrow> toString n = toString (n div 10) @ [digit (n mod 10)]"
  by (subst toString.simps) simp

lemma toString_evals:
  "toString 10 = ''10''" "toString 11 = ''11''" "toString 12 = ''12''" "toString 13 = ''13''"
  "toString 14 = ''14''" "toString 15 = ''15''" "toString 99 = ''99''" "toString 20 = ''20''"
  by (simp_all add: toString_small toString_large digit_def)

lemma lookup0:
  "getKnownClass0 store0 ''10'' = (Some \<lparr>name = ''Channel''\<rparr>, classEntity0 ''10'' 1)"
  "getKnownClass0 store0 ''11'' = (Some \<lparr>name = ''VideoMedia''\<rparr>, classEntity0 ''11'' 4)"
  "getKnownClass0 store0 ''12'' = (Some \<lparr>name = ''Playlist''\<rparr>, classEntity0 ''12'' 6)"
  "getKnownClass0 store0 ''13'' = (Some \<lparr>name = ''Video''\<rparr>, classEntity0 ''13'' 3)"
  "getKnownClass0 store0 ''14'' = (Some \<lparr>name = ''License''\<rparr>, classEntity0 ''14'' 5)"
  "getKnownClass0 store0 ''15'' = (Some \<lparr>name = ''Category''\<rparr>, classEntity0 ''15'' 2)"
  "fst (getKnownClass0 store0 ''99'') = None"
  by (simp_all add: getKnownClass0_def store0_def classNames0_def classEntity0_def)

lemma matchClass_more:
  "matchClass ''Category'' = Some CATEGORY"
  "matchClass ''VideoMedia'' = Some VIDEOMEDIA"
  "matchClass ''License'' = Some LICENSE"
  "matchClass ''MediaLocation'' = Some MEDIALOCATION"
  by (simp_all add: matchClass_def allKnownClasses_def)

lemma env0_simps:
  "stringIfyEntityId env0 = stringIfyEntityId0" "getClassEntity env0 = getClassEntity0"
  "getKnownClass env0 = getKnownClass0" "setProperties env0 = setProperties0"
  "createHandler env0 = createHandler0" "updateHandler env0 = updateHandler0"
  "removeHandler env0 = removeHandler0"
  by (simp_all add: env0_def)

lemma event0_simps:
  "isTransaction (event0 m ps as) = (m = ''transaction'')"
  "extrinsic (event0 m ps as) = Some \<lparr>method' = m, args = as\<rparr>"
  "blockNumber (event0 m ps as) = 100"
  "stringIfyEntityId0 (event0 m (p # ps) as) = toString p"
  "getClassEntity0 (event0 m [e, c] as) = (c, e)"
  by (simp_all add: event0_def isTransaction_def stringIfyEntityId0_def getClassEntity0_def)

subsection \<open>One case of a switch\<close>

lemma ToBoolean_promise: "ToBoolean p"
  by (cases p) simp

lemma dispatch_checked:
  "shouldIgnore k = Some chk \<Longrightarrow>
     dispatch env db event k l c h = quiet db [SetProperties l, ShouldIgnore k]"
  by (simp add: dispatch_def ToBoolean_promise)

lemma dispatch_plain:
  "shouldIgnore k = None \<Longrightarrow>
     dispatch env db event k l c h = invoke c (h (setProperties env event l)) db [SetProperties l]"
  by (simp add: dispatch_def)

lemma schemaSupportAdded_known:
  assumes "\<not> isTransaction event"
    and "fst (getKnownClass env db (stringIfyEntityId env event)) = Some kc"
    and "matchClass (name kc) = Some k"
  shows "contentDirectory_EntitySchemaSupportAdded env db event =
           dispatch env db event k (schemaSupportLayout k) (Create k)
             (createHandler env k (blockNumber event) (stringIfyEntityId env event))"
  using assms by (simp add: contentDirectory_EntitySchemaSupportAdded_def Let_def)

lemma propertyValuesUpdated_known:
  assumes "extrinsic event = Some x" "method' x \<noteq> ''transaction''"
    and "fst (getKnownClass env db (stringIfyEntityId env event)) = Some kc"
    and "matchClass (name kc) = Some k"
  shows "contentDirectory_EntityPropertyValuesUpdated env db event =
           dispatch env db (event\<lparr>extrinsic := Some (pushNewPropertyValues x)\<rparr>) k
             (propertyUpdateLayout k) (Update k)
             (updateHandler env k (stringIfyEntityId env event))"
  using assms by (simp add: contentDirectory_EntityPropertyValuesUpdated_def Let_def)

lemma settled_checks:
  "shouldIgnore k = Some chk \<Longrightarrow>
     settled (chk props db) = list_ex (\<lambda>(ro, M). missing db ro M) (checkedReferences k props)"
  by (cases k)
     (auto simp: channel_def videoMedia_def video_def mediaLocation_def license_def
        featuredVideo_def missing_def split: option.splits)

lemma schemaSupportAdded_checked:
  assumes "\<not> isTransaction event"
    and "fst (getKnownClass env db (stringIfyEntityId env event)) = Some kc"
    and "matchClass (name kc) = Some k"
    and "shouldIgnore k = Some chk"
  shows "contentDirectory_EntitySchemaSupportAdded env db event
           = quiet db [SetProperties (schemaSupportLayout k), ShouldIgnore k]"
  using assms by (simp add: schemaSupportAdded_known dispatch_checked)

lemma schemaSupportAdded_plain:
  assumes "\<not> isTransaction event"
    and "fst (getKnownClass env db (stringIfyEntityId env event)) = Some kc"
    and "matchClass (name kc) = Some k"
    and "shouldIgnore k = None"
  shows "contentDirectory_EntitySchemaSupportAdded env db event
           = invoke (Create k)
               (createHandler env k (blockNumber event) (stringIfyEntityId env event)
                  (setProperties env event (schemaSupportLayout k)))
               db [SetProperties (schemaSupportLayout k)]"
  using assms by (simp add: schemaSupportAdded_known dispatch_plain)

lemma propertyValuesUpdated_checked:
  assumes "extrinsic event = Some x" "method' x \<noteq> ''transaction''"
    and "fst (getKnownClass env db (stringIfyEntityId env event)) = Some kc"
    and "matchClass (name kc) = Some k"
    and "shouldIgnore k = Some chk"
  shows "contentDirectory_EntityPropertyValuesUpdated env db event
           = quiet db [SetProperties (propertyUpdateLayout k), ShouldIgnore k]"
  using assms by (simp add: propertyValuesUpdated_known dispatch_checked)

lemma removed_known:
  assumes "getKnownClass env db (stringIfyEntityId env event) = (Some kc, ce)"
    and "matchClass (name kc) = Some k"
  shows "contentDirectory_EntityRemoved env db event =
           (case removeHandler env k (stringIfyEntityId env event) db of
              (Some e, db') \<Rightarrow> \<lparr>thrown = Some e, final = db', calls = [Remove k]\<rparr>
            | (None, db') \<Rightarrow>
                \<lparr>thrown = None, final = db_remove ce db',
                 calls = [Remove k, DbRemoveClassEntity (id' ce)]\<rparr>)"
  using assms by (simp add: contentDirectory_EntityRemoved_def Let_def)

lemma db_remove_simps:
  "typed (db_remove ce db) = typed db"
  "classEntities (db_remove ce db) (id' ce) = None"
  by (simp_all add: db_remove_def)

subsection \<open>Unknown classes and transaction wrappers\<close>

lemma removed_unregistered:
  "fst (getKnownClass env db (stringIfyEntityId env event)) = None \<Longrightarrow>
     contentDirectory_EntityRemoved env db event = quiet db []"
  by (cases "getKnownClass env db (stringIfyEntityId env event)")
     (simp add: contentDirectory_EntityRemoved_def Let_def)

lemma removed_unlisted:
  "fst (getKnownClass env db (stringIfyEntityId env event)) = Some kc \<Longrightarrow>
   matchClass (name kc) = None \<Longrightarrow>
     contentDirectory_EntityRemoved env db event = throwError (UnknownClassName (name kc)) db []"
  by (cases "getKnownClass env db (stringIfyEntityId env event)")
     (simp add: contentDirectory_EntityRemoved_def Let_def)

lemma schemaSupportAdded_unregistered:
  "\<not> isTransaction event \<Longrightarrow>
   fst (getKnownClass env db (stringIfyEntityId env event)) = None \<Longrightarrow>
     contentDirectory_EntitySchemaSupportAdded env db event = quiet db []"
  by (simp add: contentDirectory_EntitySchemaSupportAdded_def Let_def)

lemma schemaSupportAdded_unlisted:
  "\<not> isTransaction event \<Longrightarrow>
   fst (getKnownClass env db (stringIfyEntityId env event)) = Some kc \<Longrightarrow>
   matchClass (name kc) = None \<Longrightarrow>
     contentDirectory_EntitySchemaSupportAdded env db event
       = throwError (UnknownClassName (name kc)) db []"
  by (simp add: contentDirectory_EntitySchemaSupportAdded_def Let_def)

lemma propertyValuesUpdated_unregistered:
  "extrinsic event = Some x \<Longrightarrow> method' x \<noteq> ''transaction'' \<Longrightarrow>
   fst (getKnownClass env db (stringIfyEntityId env event)) = None \<Longrightarrow>
     contentDirectory_EntityPropertyValuesUpdated env db event = quiet db []"
  by (simp add: contentDirectory_EntityPropertyValuesUpdated_def Let_def)

lemma propertyValuesUpdated_unlisted:
  "extrinsic event = Some x \<Longrightarrow> method' x \<noteq> ''transaction'' \<Longrightarrow>
   fst (getKnownClass env db (stringIfyEntityId env event)) = Some kc \<Longrightarrow>
   matchClass (name kc) = None \<Longrightarrow>
     contentDirectory_EntityPropertyValuesUpdated env db event
       = throwError (UnknownClassName (name kc)) db []"
  by (simp add: contentDirectory_EntityPropertyValuesUpdated_def Let_def)

lemma created_wrapped:
  "isTransaction event \<Longrightarrow> contentDirectory_EntityCreated env db event = quiet db []"
  by (simp add: contentDirectory_EntityCreated_def)

lemma schemaSupportAdded_wrapped:
  "isTransaction event \<Longrightarrow> contentDirectory_EntitySchemaSupportAdded env db event = quiet db []"
  by (simp add: contentDirectory_EntitySchemaSupportAdded_def)

lemma propertyValuesUpdated_wrapped:
  "isTransaction event \<Longrightarrow>
     contentDirectory_EntityPropertyValuesUpdated env db event = quiet db []"
  by (auto simp: contentDirectory_EntityPropertyValuesUpdated_def isTransaction_def
      split: option.splits)

subsection \<open>The layouts passed to the decoder\<close>

lemma schemaSupportLayout_classLayout:
  "(schemaSupportLayout k = classLayout k) = (k \<noteq> VIDEOMEDIA)"
  by (cases k) simp_all

lemma propertyUpdateLayout_classLayout:
  "(propertyUpdateLayout k = classLayout k) = (k \<notin> {VIDEOMEDIA, LICENSE, MEDIALOCATION})"
  by (cases k) simp_all

subsection \<open>Evaluation of the concrete events\<close>

lemma unknownEntityEvent_facts:
  "fst (getKnownClass env0 store0 (stringIfyEntityId env0 unknownEntityEvent)) = None"
  "\<not> isTransaction unknownEntityEvent"
  "extrinsic unknownEntityEvent
     = Some \<lparr>method' = ''updateEntityPropertyValues'', args = [None, None, Some (bagOf [])]\<rparr>"
  by (simp_all add: unknownEntityEvent_def env0_simps event0_simps toString_evals lookup0)

lemma playlistEvent_facts:
  "getKnownClass env0 store0 (stringIfyEntityId env0 playlistEvent)
     = (Some \<lparr>name = ''Playlist''\<rparr>, classEntity0 ''12'' 6)"
  "\<not> isTransaction playlistEvent"
  "extrinsic playlistEvent
     = Some \<lparr>method' = ''updateEntityPropertyValues'', args = [None, None, Some (bagOf [])]\<rparr>"
  by (simp_all add: playlistEvent_def env0_simps event0_simps toString_evals lookup0)

lemma attach_facts:
  "\<not> isTransaction channelAttachEvent"
  "fst (getKnownClass env0 store0 (stringIfyEntityId env0 channelAttachEvent))
     = Some \<lparr>name = ''Channel''\<rparr>"
  "\<not> isTransaction categoryAttachEvent"
  "fst (getKnownClass env0 store0 (stringIfyEntityId env0 categoryAttachEvent))
     = Some \<lparr>name = ''Category''\<rparr>"
  "\<not> isTransaction videoAttachEvent"
  "fst (getKnownClass env0 store0 (stringIfyEntityId env0 videoAttachEvent))
     = Some \<lparr>name = ''Video''\<rparr>"
  "\<not> isTransaction videoMediaAttachEvent"
  "fst (getKnownClass env0 store0 (stringIfyEntityId env0 videoMediaAttachEvent))
     = Some \<lparr>name = ''VideoMedia''\<rparr>"
  by (simp_all add: channelAttachEvent_def categoryAttachEvent_def videoAttachEvent_def
      videoMediaAttachEvent_def env0_simps event0_simps toString_evals lookup0)

lemma update_facts:
  "extrinsic videoUpdateEvent
     = Some \<lparr>method' = ''updateEntityPropertyValues'',
             args = [None, None, Some (bagOf [(''channel'', \<lparr>entityId = 7, existing = True\<rparr>)])]\<rparr>"
  "fst (getKnownClass env0 store0 (stringIfyEntityId env0 videoUpdateEvent))
     = Some \<lparr>name = ''Video''\<rparr>"
  "extrinsic licenseUpdateEvent
     = Some \<lparr>method' = ''updateEntityPropertyValues'', args = [None, None, Some (bagOf [])]\<rparr>"
  "fst (getKnownClass env0 store0 (stringIfyEntityId env0 licenseUpdateEvent))
     = Some \<lparr>name = ''License''\<rparr>"
  by (simp_all add: videoUpdateEvent_def licenseUpdateEvent_def env0_simps event0_simps
      toString_evals lookup0)

lemma video_checks:
  "matchClass (name \<lparr>name = ''Video''\<rparr>) = Some VIDEO"
  "settled (video (setProperties env0 videoAttachEvent (schemaSupportLayout VIDEO)) store0)"
  "settled (video (setProperties env0
      (videoUpdateEvent\<lparr>extrinsic := Some (pushNewPropertyValues
         \<lparr>method' = ''updateEntityPropertyValues'',
          args = [None, None, Some (bagOf [(''channel'', \<lparr>entityId = 7, existing = True\<rparr>)])]\<rparr>)\<rparr>)
      (propertyUpdateLayout VIDEO)) store0)"
  by (simp_all add: matchClass_simps video_def missing_def env0_simps setProperties0_def
      videoAttachEvent_def videoUpdateEvent_def event0_def pushNewPropertyValues_def bagOf_def
      db_get_def store0_def toString_digits)

lemma removed_facts:
  "getKnownClass env0 store0 (stringIfyEntityId env0 videoRemovedEvent)
     = (Some \<lparr>name = ''Video''\<rparr>, classEntity0 ''13'' 3)"
  "stringIfyEntityId env0 videoRemovedEvent = ''13''"
  "getKnownClass env0 store0 (stringIfyEntityId env0 channelRemovedEvent)
     = (Some \<lparr>name = ''Channel''\<rparr>, classEntity0 ''10'' 1)"
  "stringIfyEntityId env0 channelRemovedEvent = ''10''"
  "getKnownClass env0 store0 (stringIfyEntityId env0 wrappedRemovedEvent)
     = (Some \<lparr>name = ''Video''\<rparr>, classEntity0 ''13'' 3)"
  "stringIfyEntityId env0 wrappedRemovedEvent = ''13''"
  "isTransaction wrappedRemovedEvent"
  by (simp_all add: videoRemovedEvent_def channelRemovedEvent_def wrappedRemovedEvent_def
      env0_simps event0_simps toString_evals lookup0)

lemma removeHandler0_store0:
  "removeHandler env0 VIDEO ''13'' store0
     = (None, store0\<lparr>typed := typed store0 - {(Video, ''13'')}\<rparr>)"
  "removeHandler env0 CHANNEL ''10'' store0 = (Some (HandlerFailure ''row not found''), store0)"
  by (simp_all add: env0_simps removeHandler0_def store0_def)

lemma entityRemoved_io_succeeding:
  "contentDirectory_EntityRemoved_io succeedingRemove env db event
     = contentDirectory_EntityRemoved env db event"
  by (simp add: contentDirectory_EntityRemoved_io_def contentDirectory_EntityRemoved_def
      succeedingRemove_def Let_def split: prod.splits option.splits)

lemma entityRemoved_io_cases:
  assumes "getKnownClass env db (stringIfyEntityId env event) = (r, ce)"
  shows "contentDirectory_EntityRemoved_io rm env db event =
     (case r of
        None \<Rightarrow> quiet db []
      | Some kc \<Rightarrow>
          (case matchClass (name kc) of
             None \<Rightarrow> throwError (UnknownClassName (name kc)) db []
           | Some k \<Rightarrow>
               (case removeHandler env k (stringIfyEntityId env event) db of
                  (Some e, s') \<Rightarrow> \<lparr>thrown = Some e, final = s', calls = [Remove k]\<rparr>
                | (None, s') \<Rightarrow>
                    \<lparr>thrown = fst (rm ce s'), final = snd (rm ce s'),
                     calls = [Remove k, DbRemoveClassEntity (id' ce)]\<rparr>)))"
  using assms
  by (simp add: contentDirectory_EntityRemoved_io_def Let_def split: prod.splits option.splits)

lemma video_removed_io:
  "contentDirectory_EntityRemoved_io rm env0 store0 videoRemovedEvent
     = \<lparr>thrown = fst (rm (classEntity0 ''13'' 3)
                        (store0\<lparr>typed := typed store0 - {(Video, ''13'')}\<rparr>)),
        final = snd (rm (classEntity0 ''13'' 3)
                       (store0\<lparr>typed := typed store0 - {(Video, ''13'')}\<rparr>)),
        calls = [Remove VIDEO, DbRemoveClassEntity ''13'']\<rparr>"
  by (simp add: entityRemoved_io_cases [OF removed_facts(1)] matchClass_simps removed_facts(2)
      removeHandler0_store0 classEntity0_def)

lemma channel_removed_io:
  "contentDirectory_EntityRemoved_io rm env0 store0 channelRemovedEvent
     = \<lparr>thrown = Some (HandlerFailure ''row not found''), final = store0,
        calls = [Remove CHANNEL]\<rparr>"
  by (simp add: entityRemoved_io_cases [OF removed_facts(3)] matchClass_simps removed_facts(4)
      removeHandler0_store0)

subsection \<open>Claims about the dispatcher\<close>

text \<open>
  C4 (amended). The claim, that an unknown class is dropped silently by
  EntitySchemaSupportAdded but is fatal for EntityPropertyValuesUpdated and EntityRemoved,
  does not hold: the three handlers treat an unknown class alike. When the registry
  returns no known class for the entity, each of them returns without an error, without a
  call to a collaborator and with the store as it was; when the registry returns a class
  whose name is outside the enumeration of the \<^verbatim>\<open>switch\<close>, each of them throws
  \<^verbatim>\<open>Unknown class name\<close>, again with the store as it was. (For the first two handlers the
  event is not wrapped in a transaction, and an update carries its extrinsic.)
\<close>

theorem unknown_class_handled_alike:
  "(fst (getKnownClass env db (stringIfyEntityId env event)) = None \<longrightarrow>
      (\<not> isTransaction event \<longrightarrow>
         contentDirectory_EntitySchemaSupportAdded env db event = quiet db [])
    \<and> (extrinsic event = Some x \<and> method' x \<noteq> ''transaction'' \<longrightarrow>
         contentDirectory_EntityPropertyValuesUpdated env db event = quiet db [])
    \<and> contentDirectory_EntityRemoved env db event = quiet db [])
   \<and> (fst (getKnownClass env db (stringIfyEntityId env event)) = Some kc
       \<and> matchClass (name kc) = None \<longrightarrow>
      (\<not> isTransaction event \<longrightarrow>
         contentDirectory_EntitySchemaSupportAdded env db event
           = throwError (UnknownClassName (name kc)) db [])
    \<and> (extrinsic event = Some x \<and> method' x \<noteq> ''transaction'' \<longrightarrow>
         contentDirectory_EntityPropertyValuesUpdated env db event
           = throwError (UnknownClassName (name kc)) db [])
    \<and> contentDirectory_EntityRemoved env db event
         = throwError (UnknownClassName (name kc)) db [])"
  by (intro conjI impI; (elim conjE)?)
     (simp_all add: removed_unregistered removed_unlisted schemaSupportAdded_unregistered
        schemaSupportAdded_unlisted propertyValuesUpdated_unregistered
        propertyValuesUpdated_unlisted)

text \<open>
  Witness for C4: the update of entity 99, which has no ClassEntity row, and the update of
  entity 12, whose class Playlist is registered but not enumerated, each given to the three
  handlers.
\<close>

theorem unknown_class_handled_alike_witness:
  "contentDirectory_EntitySchemaSupportAdded env0 store0 unknownEntityEvent = quiet store0 []
   \<and> contentDirectory_EntityPropertyValuesUpdated env0 store0 unknownEntityEvent = quiet store0 []
   \<and> contentDirectory_EntityRemoved env0 store0 unknownEntityEvent = quiet store0 []
   \<and> contentDirectory_EntitySchemaSupportAdded env0 store0 playlistEvent
       = throwError (UnknownClassName ''Playlist'') store0 []
   \<and> contentDirectory_EntityPropertyValuesUpdated env0 store0 playlistEvent
       = throwError (UnknownClassName ''Playlist'') store0 []
   \<and> contentDirectory_EntityRemoved env0 store0 playlistEvent
       = throwError (UnknownClassName ''Playlist'') store0 []"
  using unknown_class_handled_alike [of env0 store0 unknownEntityEvent
      "\<lparr>method' = ''updateEntityPropertyValues'', args = [None, None, Some (bagOf [])]\<rparr>"
      "\<lparr>name = ''Playlist''\<rparr>"]
    unknown_class_handled_alike [of env0 store0 playlistEvent
      "\<lparr>method' = ''updateEntityPropertyValues'', args = [None, None, Some (bagOf [])]\<rparr>"
      "\<lparr>name = ''Playlist''\<rparr>"]
  by (simp add: unknownEntityEvent_facts playlistEvent_facts matchClass_simps)

text \<open>
  Counterexample to C4 as stated: for the entity without a known class, the update and the
  removal raise no error (and the update leaves the store unchanged); for the Playlist
  entity, the schema attachment raises the fatal error.
\<close>

theorem unknown_class_asymmetry_counterexample:
  "thrown (contentDirectory_EntityPropertyValuesUpdated env0 store0 unknownEntityEvent) = None
   \<and> final (contentDirectory_EntityPropertyValuesUpdated env0 store0 unknownEntityEvent) = store0
   \<and> thrown (contentDirectory_EntityRemoved env0 store0 unknownEntityEvent) = None
   \<and> thrown (contentDirectory_EntitySchemaSupportAdded env0 store0 playlistEvent)
       = Some (UnknownClassName ''Playlist'')"
proof -
  have "contentDirectory_EntityPropertyValuesUpdated env0 store0 unknownEntityEvent
          = quiet store0 []"
    by (rule propertyValuesUpdated_unregistered [OF unknownEntityEvent_facts(3)])
       (simp_all add: unknownEntityEvent_facts)
  moreover have "contentDirectory_EntityRemoved env0 store0 unknownEntityEvent = quiet store0 []"
    by (rule removed_unregistered) (rule unknownEntityEvent_facts)
  moreover have "contentDirectory_EntitySchemaSupportAdded env0 store0 playlistEvent
          = throwError (UnknownClassName (name \<lparr>name = ''Playlist''\<rparr>)) store0 []"
    by (rule schemaSupportAdded_unlisted)
       (simp_all add: playlistEvent_facts matchClass_simps)
  ultimately show ?thesis
    by (simp add: quiet_def throwError_def)
qed

text \<open>
  C5 (the code departs from the claim). The claim: a standalone schema attachment whose
  entity has a known class and whose references all resolve in the store invokes the
  matching create handler. For the six classes that carry references the handler is never
  invoked: the check is called without \<^verbatim>\<open>await\<close> (line 108 and its siblings), its promise is
  truthy, and the handler returns. Here the Channel entity 10 references the Language 1,
  which is in the store, so the check settles to \<open>False\<close>; still no create call is made and
  the store is unchanged. The attachment of the Category entity 15, a class without
  references, does create its row.
\<close>

theorem channel_schema_support_never_creates:
  "contentDirectory_EntitySchemaSupportAdded env0 store0 channelAttachEvent
     = quiet store0 [SetProperties channelPropertyNamesWithId, ShouldIgnore CHANNEL]
   \<and> settled (channel (setProperties env0 channelAttachEvent channelPropertyNamesWithId) store0)
       = False
   \<and> contentDirectory_EntitySchemaSupportAdded env0 store0 categoryAttachEvent
       = \<lparr>thrown = None,
          final = store0\<lparr>typed := insert (Category, ''15'') (typed store0)\<rparr>,
          calls = [SetProperties categoryPropertyNamesWithId, Create CATEGORY]\<rparr>"
proof -
  have a: "contentDirectory_EntitySchemaSupportAdded env0 store0 channelAttachEvent
     = quiet store0 [SetProperties (schemaSupportLayout CHANNEL), ShouldIgnore CHANNEL]"
    by (rule schemaSupportAdded_checked [where kc = "\<lparr>name = ''Channel''\<rparr>"])
       (simp_all add: attach_facts matchClass_simps)
  have b: "settled (channel (setProperties env0 channelAttachEvent channelPropertyNamesWithId)
             store0) = False"
    by (simp add: channel_def env0_simps setProperties0_def channelAttachEvent_def event0_def
        bagOf_def db_get_def store0_def toString_Suc_0)
  have c: "contentDirectory_EntitySchemaSupportAdded env0 store0 categoryAttachEvent
     = invoke (Create CATEGORY)
         (createHandler env0 CATEGORY (blockNumber categoryAttachEvent)
            (stringIfyEntityId env0 categoryAttachEvent)
            (setProperties env0 categoryAttachEvent (schemaSupportLayout CATEGORY)))
         store0 [SetProperties (schemaSupportLayout CATEGORY)]"
    by (rule schemaSupportAdded_plain [where kc = "\<lparr>name = ''Category''\<rparr>"])
       (simp_all add: attach_facts matchClass_more)
  have d: "stringIfyEntityId0 categoryAttachEvent = ''15''"
    by (simp add: categoryAttachEvent_def event0_simps toString_evals)
  show ?thesis
    using a b by (simp add: c d invoke_def env0_simps createHandler0_def)
qed

text \<open>
  C6. A standalone schema attachment or property update of an entity of a class that
  carries references, whose check settles to \<open>True\<close> (some reference is unresolved): the event
  is dropped, with no error, no handler call and the store unchanged. The check settles to
  \<open>True\<close> exactly when one of the references it reads is missing from the store; it reads
  nothing but the store, whatever the \<^verbatim>\<open>existing\<close> flag of the reference.
\<close>

theorem standalone_unresolved_reference_dropped:
  assumes "fst (getKnownClass env db (stringIfyEntityId env event)) = Some kc"
    and "matchClass (name kc) = Some k"
    and "shouldIgnore k = Some chk"
  shows "(\<not> isTransaction event
          \<and> settled (chk (setProperties env event (schemaSupportLayout k)) db) \<longrightarrow>
            contentDirectory_EntitySchemaSupportAdded env db event
              = quiet db [SetProperties (schemaSupportLayout k), ShouldIgnore k])
       \<and> (extrinsic event = Some x \<and> method' x \<noteq> ''transaction''
          \<and> settled (chk (setProperties env (event\<lparr>extrinsic := Some (pushNewPropertyValues x)\<rparr>)
                           (propertyUpdateLayout k)) db) \<longrightarrow>
            contentDirectory_EntityPropertyValuesUpdated env db event
              = quiet db [SetProperties (propertyUpdateLayout k), ShouldIgnore k])
       \<and> settled (chk props db')
           = list_ex (\<lambda>(ro, M). missing db' ro M) (checkedReferences k props)"
  using assms
  by (simp add: schemaSupportAdded_checked propertyValuesUpdated_checked settled_checks)

text \<open>
  Witness for C6: the attachment and the update of the Video entity 13, whose channel 7
  is not in the store.
\<close>

theorem standalone_unresolved_reference_dropped_witness:
  "contentDirectory_EntitySchemaSupportAdded env0 store0 videoAttachEvent
     = quiet store0 [SetProperties videoPropertyNamesWithId, ShouldIgnore VIDEO]
   \<and> contentDirectory_EntityPropertyValuesUpdated env0 store0 videoUpdateEvent
     = quiet store0 [SetProperties videoPropertyNamesWithId, ShouldIgnore VIDEO]"
proof -
  have k: "matchClass (name \<lparr>name = ''Video''\<rparr>) = Some VIDEO"
    by (simp add: matchClass_simps)
  have s: "shouldIgnore VIDEO = Some video"
    by simp
  note attach = standalone_unresolved_reference_dropped
    [OF attach_facts(6) k s, where props = "bagOf []" and db' = store0
       and x = "\<lparr>method' = ''addSchemaSupportToEntity'', args = []\<rparr>"]
  note update = standalone_unresolved_reference_dropped
    [OF update_facts(2) k s, where props = "bagOf []" and db' = store0
       and x = "\<lparr>method' = ''updateEntityPropertyValues'',
                 args = [None, None,
                         Some (bagOf [(''channel'', \<lparr>entityId = 7, existing = True\<rparr>)])]\<rparr>"]
  have "contentDirectory_EntitySchemaSupportAdded env0 store0 videoAttachEvent
     = quiet store0 [SetProperties (schemaSupportLayout VIDEO), ShouldIgnore VIDEO]"
    using attach attach_facts(5) video_checks(2) by blast
  moreover have "contentDirectory_EntityPropertyValuesUpdated env0 store0 videoUpdateEvent
     = quiet store0 [SetProperties (propertyUpdateLayout VIDEO), ShouldIgnore VIDEO]"
    using update update_facts(1) video_checks(3) by simp
  ultimately show ?thesis
    by simp
qed

text \<open>
  C7 (amended). The claim, that an EntityRemoved event deletes both the typed row and the
  ClassEntity row or neither, does not hold: nothing is rolled back, so when the removal
  of the ClassEntity row fails after the typed remove has succeeded, the typed row is gone
  and the ClassEntity row is still there. What holds of every event, every remove handler
  and every store: when the entity has no known class, or a class outside the enumeration,
  nothing is called and the store is as it was; when the remove handler throws, the
  ClassEntity row is not removed and the store is as the handler left it; when the handler
  succeeds, the removal of the ClassEntity row is the next call, on the store the handler
  left, and its outcome is the outcome of the event. The ClassEntity row is removed in no
  other case. When the handler has deleted the typed row (\<open>tbl k\<close> is the model of class
  \<open>k\<close>) and the removal of the ClassEntity row succeeds, neither row exists afterwards.
\<close>

theorem class_entity_removed_after_typed_remove:
  "(let w = stringIfyEntityId env event;
        r = fst (getKnownClass env db w);
        ce = snd (getKnownClass env db w);
        out = contentDirectory_EntityRemoved_io rm env db event
    in (r = None \<longrightarrow> out = quiet db [])
     \<and> (r = Some kc \<and> matchClass (name kc) = None \<longrightarrow>
          out = throwError (UnknownClassName (name kc)) db [])
     \<and> (r = Some kc \<and> matchClass (name kc) = Some k
          \<and> removeHandler env k w db = (Some e, s') \<longrightarrow>
          out = \<lparr>thrown = Some e, final = s', calls = [Remove k]\<rparr>)
     \<and> (r = Some kc \<and> matchClass (name kc) = Some k
          \<and> removeHandler env k w db = (None, s') \<longrightarrow>
          calls out = [Remove k, DbRemoveClassEntity (id' ce)]
          \<and> (thrown out, final out) = rm ce s')
     \<and> (DbRemoveClassEntity (id' ce) \<in> set (calls out))
         = (\<exists>kc k s'. r = Some kc \<and> matchClass (name kc) = Some k
              \<and> removeHandler env k w db = (None, s')
              \<and> calls out = [Remove k, DbRemoveClassEntity (id' ce)])
     \<and> (r = Some kc \<and> matchClass (name kc) = Some k
          \<and> removeHandler env k w db = (None, s')
          \<and> (tbl k, w) \<notin> typed s' \<and> rm ce s' = (None, db_remove ce s') \<longrightarrow>
          thrown out = None \<and> (tbl k, w) \<notin> typed (final out)
          \<and> classEntities (final out) (id' ce) = None))"
proof -
  define w where "w = stringIfyEntityId env event"
  obtain r ce where reg: "getKnownClass env db w = (r, ce)"
    by (cases "getKnownClass env db w")
  define out where "out = contentDirectory_EntityRemoved_io rm env db event"
  note shape = entityRemoved_io_cases [OF reg [unfolded w_def], of rm, folded out_def w_def]
  have a: "r = None \<longrightarrow> out = quiet db []"
    by (simp add: shape)
  have b: "r = Some kc \<and> matchClass (name kc) = None \<longrightarrow>
          out = throwError (UnknownClassName (name kc)) db []"
    by (simp add: shape)
  have c: "r = Some kc \<and> matchClass (name kc) = Some k
          \<and> removeHandler env k w db = (Some e, s') \<longrightarrow>
          out = \<lparr>thrown = Some e, final = s', calls = [Remove k]\<rparr>"
    by (simp add: shape)
  have d: "r = Some kc \<and> matchClass (name kc) = Some k
          \<and> removeHandler env k w db = (None, s') \<longrightarrow>
          calls out = [Remove k, DbRemoveClassEntity (id' ce)]
          \<and> (thrown out, final out) = rm ce s'"
    by (simp add: shape)
  have e: "(DbRemoveClassEntity (id' ce) \<in> set (calls out))
         = (\<exists>kc k s'. r = Some kc \<and> matchClass (name kc) = Some k
              \<and> removeHandler env k w db = (None, s')
              \<and> calls out = [Remove k, DbRemoveClassEntity (id' ce)])"
  proof (cases r)
    case None
    then show ?thesis by (simp add: shape quiet_def)
  next
    case (Some kc')
    show ?thesis
    proof (cases "matchClass (name kc')")
      case None
      with Some show ?thesis by (simp add: shape throwError_def)
    next
      case (Some k')
      obtain e' t where h: "removeHandler env k' w db = (e', t)"
        by (cases "removeHandler env k' w db")
      show ?thesis
        using \<open>r = Some kc'\<close> Some h by (cases e') (simp_all add: shape)
    qed
  qed
  have f: "r = Some kc \<and> matchClass (name kc) = Some k
          \<and> removeHandler env k w db = (None, s')
          \<and> (tbl k, w) \<notin> typed s' \<and> rm ce s' = (None, db_remove ce s') \<longrightarrow>
          thrown out = None \<and> (tbl k, w) \<notin> typed (final out)
          \<and> classEntities (final out) (id' ce) = None"
    by (simp add: shape db_remove_simps)
  show ?thesis
    unfolding Let_def w_def [symmetric] out_def [symmetric]
    using a b c d e f by (simp add: reg)
qed

text \<open>
  Witness for C7, on a store whose remove succeeds: removing the Video entity 13, whose
  typed row and ClassEntity row exist, deletes both; removing the Channel entity 10, which
  has no typed row, makes the handler throw and leaves the store as it was.
\<close>

theorem class_entity_removed_after_typed_remove_witness:
  "calls (contentDirectory_EntityRemoved_io succeedingRemove env0 store0 videoRemovedEvent)
     = [Remove VIDEO, DbRemoveClassEntity ''13'']
   \<and> thrown (contentDirectory_EntityRemoved_io succeedingRemove env0 store0 videoRemovedEvent)
       = None
   \<and> (Video, ''13'') \<in> typed store0
   \<and> (Video, ''13'')
       \<notin> typed (final (contentDirectory_EntityRemoved_io succeedingRemove env0 store0
                          videoRemovedEvent))
   \<and> classEntities store0 ''13'' = Some (classEntity0 ''13'' 3)
   \<and> classEntities (final (contentDirectory_EntityRemoved_io succeedingRemove env0 store0
                              videoRemovedEvent)) ''13'' = None
   \<and> contentDirectory_EntityRemoved_io succeedingRemove env0 store0 channelRemovedEvent
       = \<lparr>thrown = Some (HandlerFailure ''row not found''), final = store0,
          calls = [Remove CHANNEL]\<rparr>
   \<and> contentDirectory_EntityRemoved_io succeedingRemove env0 store0 unknownEntityEvent
       = quiet store0 []
   \<and> contentDirectory_EntityRemoved_io succeedingRemove env0 store0 playlistEvent
       = throwError (UnknownClassName ''Playlist'') store0 []"
proof -
  let ?s = "store0\<lparr>typed := typed store0 - {(Video, ''13'')}\<rparr>"
  have p: "fst (getKnownClass env0 store0 (stringIfyEntityId env0 playlistEvent))
             = Some \<lparr>name = ''Playlist''\<rparr>"
    "matchClass (name \<lparr>name = ''Playlist''\<rparr>) = None"
    by (simp_all add: playlistEvent_facts matchClass_simps)
  note unknown = class_entity_removed_after_typed_remove
    [where env = env0 and db = store0 and event = unknownEntityEvent and rm = succeedingRemove
       and kc = "\<lparr>name = ''Playlist''\<rparr>" and k = VIDEO and s' = store0 and tbl = table0
       and e = "HandlerFailure ''row not found''", unfolded Let_def]
  note playlist = class_entity_removed_after_typed_remove
    [where env = env0 and db = store0 and event = playlistEvent and rm = succeedingRemove
       and kc = "\<lparr>name = ''Playlist''\<rparr>" and k = VIDEO and s' = store0 and tbl = table0
       and e = "HandlerFailure ''row not found''", unfolded Let_def]
  have u1: "contentDirectory_EntityRemoved_io succeedingRemove env0 store0 unknownEntityEvent
     = quiet store0 []"
    using unknown unknownEntityEvent_facts(1) by blast
  have u2: "contentDirectory_EntityRemoved_io succeedingRemove env0 store0 playlistEvent
     = throwError (UnknownClassName ''Playlist'') store0 []"
    using playlist p by simp
  have reg: "fst (getKnownClass env0 store0 ''13'') = Some \<lparr>name = ''Video''\<rparr>"
    "snd (getKnownClass env0 store0 ''13'') = classEntity0 ''13'' 3"
    "fst (getKnownClass env0 store0 ''10'') = Some \<lparr>name = ''Channel''\<rparr>"
    using removed_facts(1,3) by (simp_all add: removed_facts(2,4))
  have cls: "matchClass (name \<lparr>name = ''Video''\<rparr>) = Some VIDEO"
    "matchClass (name \<lparr>name = ''Channel''\<rparr>) = Some CHANNEL"
    by (simp_all add: matchClass_simps)
  have rows: "(table0 VIDEO, ''13'') \<notin> typed ?s" "(Video, ''13'') \<in> typed store0"
    "classEntities store0 ''13'' = Some (classEntity0 ''13'' 3)"
    by (simp_all add: store0_def)
  have rm: "succeedingRemove (classEntity0 ''13'' 3) ?s = (None, db_remove (classEntity0 ''13'' 3) ?s)"
    by (simp add: succeedingRemove_def)
  have i: "id' (classEntity0 ''13'' 3) = ''13''"
    "classEntities (db_remove (classEntity0 ''13'' 3) ?s) ''13'' = None"
    by (simp_all add: classEntity0_def db_remove_def)
  note video = class_entity_removed_after_typed_remove
    [where env = env0 and db = store0 and event = videoRemovedEvent and rm = succeedingRemove
       and kc = "\<lparr>name = ''Video''\<rparr>" and k = VIDEO and s' = ?s and tbl = table0
       and e = "HandlerFailure ''row not found''", unfolded Let_def removed_facts(2)]
  note channel = class_entity_removed_after_typed_remove
    [where env = env0 and db = store0 and event = channelRemovedEvent and rm = succeedingRemove
       and kc = "\<lparr>name = ''Channel''\<rparr>" and k = CHANNEL and s' = store0 and tbl = table0
       and e = "HandlerFailure ''row not found''", unfolded Let_def removed_facts(4)]
  have "calls (contentDirectory_EntityRemoved_io succeedingRemove env0 store0 videoRemovedEvent)
          = [Remove VIDEO, DbRemoveClassEntity ''13'']"
    and "thrown (contentDirectory_EntityRemoved_io succeedingRemove env0 store0 videoRemovedEvent)
          = None"
    and "(Video, ''13'')
       \<notin> typed (final (contentDirectory_EntityRemoved_io succeedingRemove env0 store0
                          videoRemovedEvent))"
    and "classEntities (final (contentDirectory_EntityRemoved_io succeedingRemove env0 store0
                              videoRemovedEvent)) ''13'' = None"
    using video reg(1,2) cls(1) removeHandler0_store0(1) rows(1) rm i
    by (simp_all add: db_remove_simps)
  moreover have "contentDirectory_EntityRemoved_io succeedingRemove env0 store0 channelRemovedEvent
       = \<lparr>thrown = Some (HandlerFailure ''row not found''), final = store0,
          calls = [Remove CHANNEL]\<rparr>"
    using channel reg(3) cls(2) removeHandler0_store0(2) by simp
  ultimately show ?thesis
    using rows(2,3) u1 u2 by simp
qed

text \<open>
  Counterexample to C7 as stated, on a store whose remove rejects: removing the Video
  entity 13 deletes its typed row and leaves its ClassEntity row.
\<close>

theorem typed_row_removed_class_entity_kept_counterexample:
  "thrown (contentDirectory_EntityRemoved_io rejectingRemove env0 store0 videoRemovedEvent)
     = Some (StoreIOFailure ''remove'')
   \<and> (Video, ''13'') \<in> typed store0
   \<and> (Video, ''13'')
       \<notin> typed (final (contentDirectory_EntityRemoved_io rejectingRemove env0 store0
                          videoRemovedEvent))
   \<and> classEntities store0 ''13'' = Some (classEntity0 ''13'' 3)
   \<and> classEntities (final (contentDirectory_EntityRemoved_io rejectingRemove env0 store0
                              videoRemovedEvent)) ''13'' = Some (classEntity0 ''13'' 3)"
proof -
  have out: "contentDirectory_EntityRemoved_io rejectingRemove env0 store0 videoRemovedEvent
      = \<lparr>thrown = Some (StoreIOFailure ''remove''),
         final = store0\<lparr>typed := typed store0 - {(Video, ''13'')}\<rparr>,
         calls = [Remove VIDEO, DbRemoveClassEntity ''13'']\<rparr>"
    by (simp add: video_removed_io rejectingRemove_def)
  have rows: "(Video, ''13'') \<in> typed store0"
    "classEntities store0 ''13'' = Some (classEntity0 ''13'' 3)"
    by (simp_all add: store0_def)
  show ?thesis
    unfolding out using rows by simp
qed

text \<open>
  C8. An EntityCreated event that is not wrapped in a transaction, with class id \<open>c\<close> and
  entity id \<open>e\<close>: no error is thrown; afterwards the ClassEntity row of id \<open>toString e\<close> has
  class id \<open>c\<close> and version the block height; the next-entity-id counter is \<open>e + 1\<close>; the
  typed rows are those of before. The class is never looked up: the outcome is the same
  whatever the registry.
\<close>

theorem entity_created_class_entity_row:
  assumes "\<not> isTransaction event"
    and "getClassEntity env event = (c, e)"
  shows "(let out = contentDirectory_EntityCreated env db event
          in thrown out = None
           \<and> classEntities (final out) (toString e)
               = Some \<lparr>id' = toString e, classId = c, version = blockNumber event,
                        happenedIn = blockNumber event\<rparr>
           \<and> nextEntityId (final out) = Some (e + 1)
           \<and> typed (final out) = typed db
           \<and> calls out = [CreateBlock (blockNumber event), DbSaveClassEntity (toString e),
                           NextEntityId (e + 1)]
           \<and> contentDirectory_EntityCreated (env\<lparr>getKnownClass := registry\<rparr>) db event = out)"
  using assms
  by (simp add: contentDirectory_EntityCreated_def Let_def createBlockOrGetFromDatabase_def
      db_save_def getOrCreate_nextEntityId_def)

text \<open>
  Witness for C8: entity 20 of class 6 at block 100; class 6 is Playlist, which is outside
  the enumeration.
\<close>

theorem entity_created_class_entity_row_witness:
  "(let out = contentDirectory_EntityCreated env0 store0 playlistCreatedEvent
    in thrown out = None
     \<and> classEntities (final out) ''20''
         = Some \<lparr>id' = ''20'', classId = 6, version = 100, happenedIn = 100\<rparr>
     \<and> nextEntityId (final out) = Some 21
     \<and> typed (final out) = typed store0
     \<and> calls out = [CreateBlock 100, DbSaveClassEntity ''20'', NextEntityId 21])
   \<and> matchClass ''Playlist'' = None \<and> classNames0 6 = Some ''Playlist''"
proof -
  have a: "\<not> isTransaction playlistCreatedEvent"
    "getClassEntity env0 playlistCreatedEvent = (6, 20)"
    "blockNumber playlistCreatedEvent = 100"
    by (simp_all add: playlistCreatedEvent_def env0_simps event0_simps)
  show ?thesis
    using entity_created_class_entity_row [OF a(1,2), of store0 getKnownClass0]
    by (simp add: Let_def a(3) toString_evals matchClass_simps classNames0_def)
qed

text \<open>
  C9 (the code departs from the claim). The claim: the property bag of a dispatched event
  is decoded with the layout of the entity's own class. The schema attachment of the
  VideoMedia entity 11 is decoded with the Video layout (line 143), and the update of the
  License entity 14 with the VideoMediaEncoding layout (line 377).
\<close>

theorem video_media_decoded_with_video_layout:
  "contentDirectory_EntitySchemaSupportAdded env0 store0 videoMediaAttachEvent
     = quiet store0 [SetProperties videoPropertyNamesWithId, ShouldIgnore VIDEOMEDIA]
   \<and> classLayout VIDEOMEDIA = videoMediaPropertyNamesWithId
   \<and> contentDirectory_EntityPropertyValuesUpdated env0 store0 licenseUpdateEvent
     = quiet store0 [SetProperties videoMediaEncodingPropertyNamesWithId, ShouldIgnore LICENSE]
   \<and> classLayout LICENSE = licensePropertyNamesWithId"
proof -
  have a: "contentDirectory_EntitySchemaSupportAdded env0 store0 videoMediaAttachEvent
     = quiet store0 [SetProperties (schemaSupportLayout VIDEOMEDIA), ShouldIgnore VIDEOMEDIA]"
    by (rule schemaSupportAdded_checked [where kc = "\<lparr>name = ''VideoMedia''\<rparr>"])
       (simp_all add: attach_facts matchClass_more)
  have b: "contentDirectory_EntityPropertyValuesUpdated env0 store0 licenseUpdateEvent
     = quiet store0 [SetProperties (propertyUpdateLayout LICENSE), ShouldIgnore LICENSE]"
    by (rule propertyValuesUpdated_checked [OF update_facts(3),
          where kc = "\<lparr>name = ''License''\<rparr>"])
       (simp_all add: update_facts matchClass_more)
  show ?thesis
    using a b by simp
qed

text \<open>
  C10. For an event whose extrinsic method is \<^verbatim>\<open>transaction\<close>, EntityCreated,
  EntitySchemaSupportAdded and EntityPropertyValuesUpdated return at once: no call, no
  error, the store unchanged. EntityRemoved does not: when the entity has a known class
  and its remove handler succeeds, the handler is invoked and the ClassEntity row is
  removed.
\<close>

theorem entity_removed_ignores_transaction_wrapper:
  assumes "isTransaction event"
  shows "contentDirectory_EntityCreated env db event = quiet db []
       \<and> contentDirectory_EntitySchemaSupportAdded env db event = quiet db []
       \<and> contentDirectory_EntityPropertyValuesUpdated env db event = quiet db []
       \<and> (getKnownClass env db (stringIfyEntityId env event) = (Some kc, ce)
          \<and> matchClass (name kc) = Some k
          \<and> removeHandler env k (stringIfyEntityId env event) db = (None, db') \<longrightarrow>
            contentDirectory_EntityRemoved env db event
              = \<lparr>thrown = None, final = db_remove ce db',
                 calls = [Remove k, DbRemoveClassEntity (id' ce)]\<rparr>)"
  using assms
  by (auto simp: created_wrapped schemaSupportAdded_wrapped propertyValuesUpdated_wrapped
      removed_known)

text \<open>
  Witness for C10: the removal of the Video entity 13, wrapped in a transaction.
\<close>

theorem entity_removed_ignores_transaction_wrapper_witness:
  "contentDirectory_EntityCreated env0 store0 wrappedRemovedEvent = quiet store0 []
   \<and> contentDirectory_EntitySchemaSupportAdded env0 store0 wrappedRemovedEvent = quiet store0 []
   \<and> contentDirectory_EntityPropertyValuesUpdated env0 store0 wrappedRemovedEvent
       = quiet store0 []
   \<and> contentDirectory_EntityRemoved env0 store0 wrappedRemovedEvent
       = \<lparr>thrown = None,
          final = db_remove (classEntity0 ''13'' 3)
                    (store0\<lparr>typed := typed store0 - {(Video, ''13'')}\<rparr>),
          calls = [Remove VIDEO, DbRemoveClassEntity ''13'']\<rparr>"
proof -
  have r: "removeHandler env0 VIDEO (stringIfyEntityId env0 wrappedRemovedEvent) store0
      = (None, store0\<lparr>typed := typed store0 - {(Video, ''13'')}\<rparr>)"
    by (simp add: removed_facts(6) removeHandler0_store0)
  have m: "matchClass (name \<lparr>name = ''Video''\<rparr>) = Some VIDEO"
    by (simp add: matchClass_simps)
  have i: "id' (classEntity0 ''13'' 3) = ''13''"
    by (simp add: classEntity0_def)
  show ?thesis
    using entity_removed_ignores_transaction_wrapper [OF removed_facts(7),
        where env = env0 and db = store0 and kc = "\<lparr>name = ''Video''\<rparr>"
          and ce = "classEntity0 ''13'' 3" and k = VIDEO
          and db' = "store0\<lparr>typed := typed store0 - {(Video, ''13'')}\<rparr>"]
      removed_facts(5) m r
    unfolding i by blast
qed

end
